theory Spec2Isabelle
  imports
    Main
    "HOL-Library.AList"
    "HOL-Library.Sublist"
    "HOL-Library.Char_ord"
    "HOL-Library.List_Lexorder"
begin

section \<open>Python values used by \<^verbatim>\<open>data.py\<close>\<close>

text \<open>
  The stimulus classes of \<^verbatim>\<open>src/data.py\<close> work on file names, on dictionaries keyed by
  file names and on four JSON files. A Python string is a sequence of code points; here a
  string is a \<open>char list\<close> and a \<open>char\<close> is a code point below 256, so file names with
  other characters are not values of the model. An exception is a value of \<open>error\<close>, and a
  computation that may raise returns \<open>error + 'a\<close>.
\<close>

datatype error = FileNotFoundError | IndexError | KeyError | OtherError

text \<open>
  The first three are the exceptions that the index and corpus code can raise; \<open>OtherError\<close>
  stands for what only \<^verbatim>\<open>calculate_dataset_stats\<close> raises (an image that cannot be read).
\<close>

definition ebind :: "error + 'a \<Rightarrow> ('a \<Rightarrow> error + 'b) \<Rightarrow> error + 'b" where
  "ebind m f = (case m of Inl e \<Rightarrow> Inl e | Inr x \<Rightarrow> f x)"

text \<open>\<^verbatim>\<open>xs[i]\<close> for a literal index \<open>i \<ge> 0\<close>; out of range raises \<^verbatim>\<open>IndexError\<close>.\<close>

definition item :: "'a list \<Rightarrow> nat \<Rightarrow> error + 'a" where
  "item xs i = (if i < length xs then Inr (xs ! i) else Inl IndexError)"

text \<open>\<^verbatim>\<open>xs[i]\<close> for an integer \<open>i\<close> given by the caller: a negative index counts from the end.\<close>

definition item_int :: "'a list \<Rightarrow> int \<Rightarrow> error + 'a" where
  "item_int xs i =
     (if 0 \<le> i \<and> i < int (length xs) then Inr (xs ! nat i)
      else if i < 0 \<and> - int (length xs) \<le> i then Inr (xs ! nat (int (length xs) + i))
      else Inl IndexError)"

text \<open>\<^verbatim>\<open>s.split(sep)\<close> for a one-character separator: the result is never empty.\<close>

fun split_on :: "char \<Rightarrow> string \<Rightarrow> string list" where
  "split_on sep [] = [[]]"
| "split_on sep (c # cs) =
     (if c = sep then [] # split_on sep cs
      else (case split_on sep cs of [] \<Rightarrow> [[c]] | w # ws \<Rightarrow> (c # w) # ws))"

text \<open>
  \<^verbatim>\<open>s.replace(old, new)\<close> for a non-empty \<open>old\<close>: the occurrences of \<open>old\<close> are replaced
  from left to right, without overlap. (The source only calls it with \<^verbatim>\<open>'.png'\<close>.)
\<close>

function replace :: "string \<Rightarrow> string \<Rightarrow> string \<Rightarrow> string" where
  "replace old new [] = []"
| "replace old new (c # cs) =
     (if old \<noteq> [] \<and> prefix old (c # cs)
      then new @ replace old new (drop (length old) (c # cs))
      else c # replace old new cs)"
  by pat_completeness auto
termination
  by (relation "measure (\<lambda>(old, new, s). length s)") auto

text \<open>
  \<^verbatim>\<open>c.isdigit()\<close>: below 256 the digits of Unicode are \<^verbatim>\<open>0\<close> to \<^verbatim>\<open>9\<close> and the superscripts
  two, three and one (code points 178, 179 and 185).
\<close>

definition isdigit :: "char \<Rightarrow> bool" where
  "isdigit c = (c \<in> set ''0123456789'' \<or> of_char c \<in> {178, 179, 185 :: nat})"

subsection \<open>Dictionaries\<close>

text \<open>
  A Python \<^verbatim>\<open>dict\<close> keeps its keys in insertion order, and \<^verbatim>\<open>d[k] = v\<close> on a key that is
  already there replaces the value where the key stands. That is \<open>AList.update\<close> on an
  association list; \<^verbatim>\<open>d.keys()\<close> is \<open>map fst d\<close>, \<^verbatim>\<open>d.pop(k)\<close> is \<open>AList.delete k d\<close> and
  \<^verbatim>\<open>d[k]\<close> raises \<^verbatim>\<open>KeyError\<close> on a missing key.
\<close>

type_synonym ('k, 'v) dict = "('k \<times> 'v) list"

definition keys :: "('k, 'v) dict \<Rightarrow> 'k list" where
  "keys d = map fst d"

definition getitem_dict :: "('k, 'v) dict \<Rightarrow> 'k \<Rightarrow> error + 'v" where
  "getitem_dict d k = (case map_of d k of None \<Rightarrow> Inl KeyError | Some v \<Rightarrow> Inr v)"

subsection \<open>Stimulus records and the persisted files\<close>

text \<open>The inner dictionary of \<^verbatim>\<open>shape_classes[image]\<close> (style-transfer set).\<close>

record stimulus =
  shape :: string
  texture :: string
  shape_spec :: string
  texture_spec :: string
  dir :: string

text \<open>The inner dictionary of \<^verbatim>\<open>all_stims[image]\<close> (fake set).\<close>

record fake_stimulus =
  f_shape :: string
  f_texture :: string
  f_color :: string
  f_dir :: string

text \<open>
  \<^verbatim>\<open>triplets_by_image[image]\<close> with its keys \<^verbatim>\<open>'shape matches'\<close>, \<^verbatim>\<open>'texture matches'\<close> and
  \<^verbatim>\<open>'triplets'\<close>, and \<^verbatim>\<open>trials_by_image[image]\<close> with \<^verbatim>\<open>'shape matches'\<close>,
  \<^verbatim>\<open>'texture matches'\<close>, \<^verbatim>\<open>'color matches'\<close> and \<^verbatim>\<open>'trials'\<close>.
\<close>

record triplet_entry =
  shape_matches :: "string list"
  texture_matches :: "string list"
  triplets :: "string list list"

record trial_entry =
  f_shape_matches :: "string list"
  f_texture_matches :: "string list"
  f_color_matches :: "string list"
  trials :: "string list list"

text \<open>
  The dictionaries \<^verbatim>\<open>triplets_by_image\<close> and \<^verbatim>\<open>trials_by_image\<close> hold two kinds of value:
  the entry of an anchor, and, under the key \<^verbatim>\<open>'all'\<close>, the list of all tuples.
\<close>

datatype 'e corpus_value = PerAnchor 'e | AllTuples "string list list"

type_synonym shape_classes = "(string, stimulus) dict"
type_synonym all_stims = "(string, fake_stimulus) dict"
type_synonym triplets_by_image = "(string, triplet_entry corpus_value) dict"
type_synonym trials_by_image = "(string, trial_entry corpus_value) dict"

text \<open>
  The world outside the process: the paths of the files in storage, in the order in which
  the directories list them, and the four JSON files. \<^verbatim>\<open>json.dump\<close> followed by
  \<^verbatim>\<open>json.load\<close> gives back a dictionary of strings, lists and dictionaries as it was, so
  a JSON file is modelled by the value it holds, \<open>None\<close> when the file does not exist.
  The content of an image is not modelled.
\<close>

record world =
  files :: "string list"
  geirhos_shape_classes_json :: "shape_classes option"
  geirhos_triplets_json :: "triplets_by_image option"
  fake_stimulus_classes_json :: "all_stims option"
  fake_trials_json :: "trials_by_image option"

text \<open>\<^verbatim>\<open>json.load(open(name))\<close>: \<^verbatim>\<open>open\<close> raises \<^verbatim>\<open>FileNotFoundError\<close> on a missing file.\<close>

definition json_load :: "'a option \<Rightarrow> error + 'a" where
  "json_load f = (case f of None \<Rightarrow> Inl FileNotFoundError | Some v \<Rightarrow> Inr v)"

subsection \<open>Default image processing\<close>

text \<open>
  Each constructor starts with the block \<^verbatim>\<open>if transform is None: ... else: ...\<close> (lines
  68--77, 196--205 and 323--332). Without a transform it calls
  \<^verbatim>\<open>calculate_dataset_stats(path, 3, f)\<close>, which lists the directory and reads every image:
  it raises when the directory is missing or an image cannot be read, and returns pixel
  statistics (floating point) otherwise. The function is a parameter \<open>stats\<close> of the
  constructors: \<open>stats fs path n f\<close> is what the call raises or returns over storage \<open>fs\<close>.
  The transform of the object is the caller's, or the default one made of the statistics.
\<close>

type_synonym 's stats = "string list \<Rightarrow> string \<Rightarrow> nat \<Rightarrow> bool \<Rightarrow> error + 's"

datatype ('t, 's) processing = Given 't | Default 's

definition image_processing ::
  "'s stats \<Rightarrow> 't option \<Rightarrow> string list \<Rightarrow> string \<Rightarrow> bool \<Rightarrow> error + ('t, 's) processing"
  where
  "image_processing stats transform fs path f =
     (case transform of
        None \<Rightarrow> ebind (stats fs path 3 f) (\<lambda>s. Inr (Default s))
      | Some t \<Rightarrow> Inr (Given t))"

subsection \<open>\<^verbatim>\<open>glob.glob\<close>\<close>

text \<open>
  The classes below take \<^verbatim>\<open>glob.glob\<close> as a parameter \<open>g\<close>: \<open>g fs pat\<close> is the list of the
  paths of storage \<open>fs\<close> that match \<open>pat\<close>. What is proved for every \<open>g\<close> holds whatever
  the library does. The function \<open>glob\<close> is used for the concrete storages of the examples
  only. It is the library function within these limits: the pattern is made of literal
  characters, \<^verbatim>\<open>*\<close> and \<^verbatim>\<open>?\<close> (a character class \<^verbatim>\<open>[...]\<close>, which a directory or file name
  pasted into a pattern could bring in, is not interpreted), no component of the pattern
  is empty (no doubled or trailing \<^verbatim>\<open>/\<close> in the directory arguments), and the storage is
  listed directory by directory. A path matches when it has as many components as the
  pattern and every component matches, \<^verbatim>\<open>*\<close> and \<^verbatim>\<open>?\<close> never match \<^verbatim>\<open>/\<close>, and a name that
  starts with a dot only matches a pattern that starts with a dot. The results keep the
  storage order.
\<close>

type_synonym globber = "string list \<Rightarrow> string \<Rightarrow> string list"

fun fnmatch :: "string \<Rightarrow> string \<Rightarrow> bool" where
  "fnmatch [] [] = True"
| "fnmatch (c # cs) [] = False"
| "fnmatch [] (p # ps) = (p = CHR ''*'' \<and> fnmatch [] ps)"
| "fnmatch (c # cs) (p # ps) =
     (if p = CHR ''*'' then fnmatch (c # cs) ps \<or> fnmatch cs (p # ps)
      else (p = CHR ''?'' \<or> p = c) \<and> fnmatch cs ps)"

definition hidden :: "string \<Rightarrow> bool" where
  "hidden name = (case name of [] \<Rightarrow> False | c # cs \<Rightarrow> c = CHR ''.'')"

definition component_match :: "string \<Rightarrow> string \<Rightarrow> bool" where
  "component_match pat name = (fnmatch name pat \<and> (if hidden name then hidden pat else True))"

definition glob :: globber where
  "glob fs pat =
     filter (\<lambda>p. list_all2 component_match (split_on CHR ''/'' pat) (split_on CHR ''/'' p)) fs"

section \<open>The style-transfer index\<close>

text \<open>
  The body of the loop at lines 86--99 (and, with the same text, 214--227), for one path
  of \<^verbatim>\<open>glob.glob('stimuli-shape/style-transfer/*/*.png')\<close>. Lines 87--91 parse the path
  into the file name \<^verbatim>\<open>image[3]\<close> and the five attributes; lines 93--99 store them under
  the file name if the image is a cue-conflict image.
\<close>

definition parse_image :: "string \<Rightarrow> error + (string \<times> stimulus)" where
  "parse_image image_dir =
     (let img = split_on CHR ''/'' image_dir in
      ebind (item img 2) (\<lambda>shape.
      ebind (item img 3) (\<lambda>name.
      ebind (item (split_on CHR ''-'' name) 1) (\<lambda>t.
      ebind (item (split_on CHR ''-'' name) 0) (\<lambda>shape_spec.
        let texture_spec = replace ''.png'' [] t;
            texture = filter (\<lambda>i. \<not> isdigit i) texture_spec
        in Inr (name, \<lparr>shape = shape, texture = texture, shape_spec = shape_spec,
                       texture_spec = texture_spec, dir = image_dir\<rparr>))))))"

definition add_image :: "shape_classes \<Rightarrow> string \<Rightarrow> error + shape_classes" where
  "add_image d image_dir =
     ebind (parse_image image_dir) (\<lambda>(name, r).
       if shape r \<noteq> texture r then Inr (AList.update name r d) else Inr d)"

fun create_shape_classes :: "shape_classes \<Rightarrow> string list \<Rightarrow> error + shape_classes" where
  "create_shape_classes d [] = Inr d"
| "create_shape_classes d (image_dir # rest) =
     ebind (add_image d image_dir) (\<lambda>d'. create_shape_classes d' rest)"

text \<open>
  The first \<^verbatim>\<open>try\<close>/\<^verbatim>\<open>except FileNotFoundError\<close> block of
  \<^verbatim>\<open>GeirhosStyleTransferDataset.__init__\<close> and of \<^verbatim>\<open>GeirhosTriplets.__init__\<close>: load the
  dictionary, or create it from storage and save it.
\<close>

definition load_shape_classes :: "globber \<Rightarrow> world \<Rightarrow> error + (shape_classes \<times> world)" where
  "load_shape_classes g w =
     (case json_load (geirhos_shape_classes_json w) of
        Inr d \<Rightarrow> Inr (d, w)
      | Inl FileNotFoundError \<Rightarrow>
          ebind (create_shape_classes [] (g (files w) ''stimuli-shape/style-transfer/*/*.png''))
            (\<lambda>d. Inr (d, w\<lparr>geirhos_shape_classes_json := Some d\<rparr>))
      | Inl e \<Rightarrow> Inl e)"

text \<open>
  \<^verbatim>\<open>GeirhosStyleTransferDataset.__init__\<close>: the image-processing block, then the index. The
  object is its \<^verbatim>\<open>shape_classes\<close> dictionary: the two directories and the transform that it
  also stores are only used to open images.
\<close>

definition GeirhosStyleTransferDataset_init ::
  "'s stats \<Rightarrow> 't option \<Rightarrow> globber \<Rightarrow> world \<Rightarrow> error + (shape_classes \<times> world)" where
  "GeirhosStyleTransferDataset_init stats transform g w =
     ebind (image_processing stats transform (files w) ''stimuli-shape/style-transfer'' False)
       (\<lambda>tr. load_shape_classes g w)"

text \<open>
  \<^verbatim>\<open>GeirhosStyleTransferDataset.__getitem__\<close> without the image: the name of the
  \<open>idx\<close>-th image in sorted order and its four attributes.
\<close>

definition GeirhosStyleTransferDataset_getitem ::
  "shape_classes \<Rightarrow> int \<Rightarrow> error + (string \<times> string \<times> string \<times> string \<times> string)" where
  "GeirhosStyleTransferDataset_getitem d idx =
     (let images = sort (keys d) in
      ebind (item_int images idx) (\<lambda>image_name.
      ebind (getitem_dict d image_name) (\<lambda>im_dict.
        Inr (image_name, shape im_dict, texture im_dict,
             shape_spec im_dict, texture_spec im_dict))))"

section \<open>The style-transfer triplets\<close>

text \<open>
  The two loops at lines 254--263. A \<^verbatim>\<open>for\<close> loop whose body is a \<^verbatim>\<open>continue\<close> test
  followed by an \<^verbatim>\<open>append\<close> is a \<open>filter\<close>; \<^verbatim>\<open>p.split('/')[-1]\<close> is the last component
  of a path.
\<close>

definition find_shape_matches ::
  "globber \<Rightarrow> string list \<Rightarrow> string \<Rightarrow> shape_classes \<Rightarrow> string \<Rightarrow> string \<Rightarrow> string \<Rightarrow> string list"
  where
  "find_shape_matches g fs shape_dir d img shp shp_spec =
     filter (\<lambda>shape_match. \<not> (shape_match = img \<or> shape_match \<notin> set (keys d)))
       (map (\<lambda>p. last (split_on CHR ''/'' p))
          (g fs (shape_dir @ ''/'' @ shp @ ''/'' @ shp_spec @ ''*.png'')))"

definition find_texture_matches ::
  "globber \<Rightarrow> string list \<Rightarrow> string \<Rightarrow> shape_classes \<Rightarrow> string \<Rightarrow> string \<Rightarrow> string list"
  where
  "find_texture_matches g fs shape_dir d img tex_spec =
     filter (\<lambda>texture_match. \<not> (texture_match = img \<or> texture_match \<notin> set (keys d)))
       (map (\<lambda>p. last (split_on CHR ''/'' p))
          (g fs (shape_dir @ ''/*/*'' @ tex_spec @ ''.png'')))"

text \<open>The nested loops at lines 265--269: every shape match with every texture match.\<close>

definition make_triplets :: "string \<Rightarrow> string list \<Rightarrow> string list \<Rightarrow> string list list" where
  "make_triplets img sm tm =
     concat (map (\<lambda>shape_match. map (\<lambda>texture_match. [img, shape_match, texture_match]) tm) sm)"

text \<open>The body of the loop over the anchors (lines 245--269), as the entry it builds.\<close>

definition anchor_entry ::
  "globber \<Rightarrow> string list \<Rightarrow> string \<Rightarrow> shape_classes \<Rightarrow> string \<Rightarrow> error + triplet_entry" where
  "anchor_entry g fs shape_dir d img =
     ebind (getitem_dict d img) (\<lambda>r.
       let sm = find_shape_matches g fs shape_dir d img (shape r) (shape_spec r);
           tm = find_texture_matches g fs shape_dir d img (texture_spec r)
       in Inr \<lparr>shape_matches = sm, texture_matches = tm,
               triplets = make_triplets img sm tm\<rparr>)"

fun generate_triplets ::
  "globber \<Rightarrow> string list \<Rightarrow> string \<Rightarrow> shape_classes \<Rightarrow> string list \<Rightarrow>
   triplets_by_image \<times> string list list \<Rightarrow> error + (triplets_by_image \<times> string list list)"
  where
  "generate_triplets g fs shape_dir d [] st = Inr st"
| "generate_triplets g fs shape_dir d (img # rest) st =
     ebind (anchor_entry g fs shape_dir d img) (\<lambda>e.
       generate_triplets g fs shape_dir d rest
         (AList.update img (PerAnchor e) (fst st), snd st @ triplets e))"

text \<open>
  The object. \<^verbatim>\<open>all_triplets\<close> is the list of all triplets after a build; after a load it
  is whatever the file holds under \<^verbatim>\<open>'all'\<close>, which line 237 does not test.
\<close>

record geirhos_triplets =
  shape_classes :: shape_classes
  all_triplets :: "triplet_entry corpus_value"
  triplets_by_image :: triplets_by_image

text \<open>
  The second \<^verbatim>\<open>try\<close>/\<^verbatim>\<open>except\<close> block of \<^verbatim>\<open>GeirhosTriplets.__init__\<close> (lines 234--275).
\<close>

definition load_triplets ::
  "globber \<Rightarrow> string \<Rightarrow> shape_classes \<Rightarrow> world \<Rightarrow> error + (geirhos_triplets \<times> world)" where
  "load_triplets g shape_dir d w =
     (case json_load (geirhos_triplets_json w) of
        Inr tbi \<Rightarrow>
          ebind (getitem_dict tbi ''all'') (\<lambda>a.
            Inr (\<lparr>shape_classes = d, all_triplets = a,
                  triplets_by_image = AList.delete ''all'' tbi\<rparr>, w))
      | Inl FileNotFoundError \<Rightarrow>
          ebind (generate_triplets g (files w) shape_dir d (keys d) ([], [])) (\<lambda>(tbi, all).
            let tbi' = AList.update ''all'' (AllTuples all) tbi
            in Inr (\<lparr>shape_classes = d, all_triplets = AllTuples all,
                      triplets_by_image = tbi'\<rparr>,
                    w\<lparr>geirhos_triplets_json := Some tbi'\<rparr>))
      | Inl e \<Rightarrow> Inl e)"

definition GeirhosTriplets_init ::
  "'s stats \<Rightarrow> 't option \<Rightarrow> globber \<Rightarrow> string \<Rightarrow> world \<Rightarrow>
   error + (geirhos_triplets \<times> world)" where
  "GeirhosTriplets_init stats transform g shape_dir w =
     ebind (image_processing stats transform (files w) ''stimuli-shape/style-transfer'' False)
       (\<lambda>tr.
     ebind (load_shape_classes g w) (\<lambda>(d, w'). load_triplets g shape_dir d w'))"

section \<open>The fake stimuli\<close>

text \<open>
  The body of the loop at lines 342--354. Lines 343--344 parse a path into the file name
  and its fields; line 346 tests the fields for the marker \<^verbatim>\<open>'x'\<close> or \<^verbatim>\<open>'X'\<close>. The state of
  the loop is the dictionary and the storage: \<^verbatim>\<open>os.remove\<close> deletes the file, and raises
  \<^verbatim>\<open>FileNotFoundError\<close> if it is not there.
\<close>

definition parse_fake_image :: "string \<Rightarrow> error + (string \<times> string list)" where
  "parse_fake_image image_dir =
     ebind (item (split_on CHR ''/'' image_dir) 2) (\<lambda>img.
       Inr (img, split_on CHR ''_'' (replace ''.png'' [] img)))"

definition unassigned :: "string list \<Rightarrow> bool" where
  "unassigned specs = (''x'' \<in> set specs \<or> ''X'' \<in> set specs)"

definition add_fake_image ::
  "all_stims \<times> string list \<Rightarrow> string \<Rightarrow> error + (all_stims \<times> string list)" where
  "add_fake_image st image_dir =
     ebind (parse_fake_image image_dir) (\<lambda>(img, specs).
       if unassigned specs
       then (if image_dir \<in> set (snd st) then Inr (fst st, removeAll image_dir (snd st))
             else Inl FileNotFoundError)
       else
         ebind (item specs 0) (\<lambda>s.
         ebind (item specs 1) (\<lambda>t.
         ebind (item specs 2) (\<lambda>c.
           Inr (AList.update img
                  \<lparr>f_shape = s, f_texture = t, f_color = c, f_dir = image_dir\<rparr> (fst st),
                snd st)))))"

fun create_all_stims ::
  "all_stims \<times> string list \<Rightarrow> string list \<Rightarrow> error + (all_stims \<times> string list)" where
  "create_all_stims st [] = Inr st"
| "create_all_stims st (image_dir # rest) =
     ebind (add_fake_image st image_dir) (\<lambda>st'. create_all_stims st' rest)"

text \<open>The first \<^verbatim>\<open>try\<close>/\<^verbatim>\<open>except\<close> block of \<^verbatim>\<open>FakeStimTrials.__init__\<close> (lines 335--358).\<close>

definition load_all_stims :: "globber \<Rightarrow> string \<Rightarrow> world \<Rightarrow> error + (all_stims \<times> world)" where
  "load_all_stims g fake_dir w =
     (case json_load (fake_stimulus_classes_json w) of
        Inr d \<Rightarrow> Inr (d, w)
      | Inl FileNotFoundError \<Rightarrow>
          ebind (create_all_stims ([], files w) (g (files w) (fake_dir @ ''/*.png'')))
            (\<lambda>(d, fs). Inr (d, w\<lparr>files := fs, fake_stimulus_classes_json := Some d\<rparr>))
      | Inl e \<Rightarrow> Inl e)"

text \<open>
  The three match loops at lines 382--408 differ in their \<^verbatim>\<open>continue\<close> tests only: \<open>r\<close> is
  the record of the anchor \<open>image\<close>, \<open>r2\<close> the record of the candidate \<open>m\<close>.
\<close>

definition skip_shape_match :: "string \<Rightarrow> fake_stimulus \<Rightarrow> string \<Rightarrow> fake_stimulus \<Rightarrow> bool" where
  "skip_shape_match img r m r2 =
     (if m = img \<or> f_shape r \<noteq> f_shape r2 then True
      else if f_texture r = f_texture r2 \<or> f_color r = f_color r2 then True
      else False)"

definition skip_texture_match :: "string \<Rightarrow> fake_stimulus \<Rightarrow> string \<Rightarrow> fake_stimulus \<Rightarrow> bool" where
  "skip_texture_match img r m r2 =
     (if m = img \<or> f_texture r \<noteq> f_texture r2 then True
      else if f_shape r = f_shape r2 \<or> f_color r = f_color r2 then True
      else False)"

definition skip_color_match :: "string \<Rightarrow> fake_stimulus \<Rightarrow> string \<Rightarrow> fake_stimulus \<Rightarrow> bool" where
  "skip_color_match img r m r2 =
     (if m = img \<or> f_color r \<noteq> f_color r2 then True
      else if f_shape r = f_shape r2 \<or> f_texture r = f_texture r2 then True
      else False)"

fun find_matches ::
  "(string \<Rightarrow> fake_stimulus \<Rightarrow> bool) \<Rightarrow> all_stims \<Rightarrow> string list \<Rightarrow> error + string list" where
  "find_matches skip d [] = Inr []"
| "find_matches skip d (m # rest) =
     ebind (getitem_dict d m) (\<lambda>r2.
     ebind (find_matches skip d rest) (\<lambda>ms.
       Inr (if skip m r2 then ms else m # ms)))"

text \<open>The nested loops at lines 411--420.\<close>

definition make_trials ::
  "string \<Rightarrow> string list \<Rightarrow> string list \<Rightarrow> string list \<Rightarrow> string list list" where
  "make_trials img sm tm cm =
     concat (map (\<lambda>shape_match.
       concat (map (\<lambda>texture_match.
         if texture_match = shape_match then []
         else concat (map (\<lambda>color_match.
           if color_match = texture_match \<or> color_match = shape_match then []
           else [[img, shape_match, texture_match, color_match]]) cm)) tm)) sm)"

definition fake_anchor_entry :: "all_stims \<Rightarrow> string \<Rightarrow> error + trial_entry" where
  "fake_anchor_entry d img =
     ebind (getitem_dict d img) (\<lambda>r.
     ebind (find_matches (skip_shape_match img r) d (keys d)) (\<lambda>sm.
     ebind (find_matches (skip_texture_match img r) d (keys d)) (\<lambda>tm.
     ebind (find_matches (skip_color_match img r) d (keys d)) (\<lambda>cm.
       Inr \<lparr>f_shape_matches = sm, f_texture_matches = tm, f_color_matches = cm,
            trials = make_trials img sm tm cm\<rparr>))))"

fun generate_trials ::
  "all_stims \<Rightarrow> string list \<Rightarrow> trials_by_image \<times> string list list \<Rightarrow>
   error + (trials_by_image \<times> string list list)" where
  "generate_trials d [] st = Inr st"
| "generate_trials d (img # rest) st =
     ebind (fake_anchor_entry d img) (\<lambda>e.
       generate_trials d rest (AList.update img (PerAnchor e) (fst st), snd st @ trials e))"

record fake_stim_trials =
  all_stims :: all_stims
  all_trials :: "trial_entry corpus_value"
  trials_by_image :: trials_by_image

text \<open>The second \<^verbatim>\<open>try\<close>/\<^verbatim>\<open>except\<close> block of \<^verbatim>\<open>FakeStimTrials.__init__\<close> (lines 361--426).\<close>

definition load_trials :: "all_stims \<Rightarrow> world \<Rightarrow> error + (fake_stim_trials \<times> world)" where
  "load_trials d w =
     (case json_load (fake_trials_json w) of
        Inr tbi \<Rightarrow>
          ebind (getitem_dict tbi ''all'') (\<lambda>a.
            Inr (\<lparr>all_stims = d, all_trials = a,
                  trials_by_image = AList.delete ''all'' tbi\<rparr>, w))
      | Inl FileNotFoundError \<Rightarrow>
          ebind (generate_trials d (keys d) ([], [])) (\<lambda>(tbi, all).
            let tbi' = AList.update ''all'' (AllTuples all) tbi
            in Inr (\<lparr>all_stims = d, all_trials = AllTuples all, trials_by_image = tbi'\<rparr>,
                    w\<lparr>fake_trials_json := Some tbi'\<rparr>))
      | Inl e \<Rightarrow> Inl e)"

definition FakeStimTrials_init ::
  "'s stats \<Rightarrow> 't option \<Rightarrow> globber \<Rightarrow> string \<Rightarrow> world \<Rightarrow>
   error + (fake_stim_trials \<times> world)" where
  "FakeStimTrials_init stats transform g fake_dir w =
     ebind (image_processing stats transform (files w) ''stimuli-shape/fake'' True) (\<lambda>tr.
     ebind (load_all_stims g fake_dir w) (\<lambda>(d, w'). load_trials d w'))"

text \<open>
  \<^verbatim>\<open>FakeStimTrials.getitem\<close> on an integer (lines 438--447), without the image: the path
  that is opened and the name that is returned.
\<close>

definition FakeStimTrials_getitem :: "fake_stim_trials \<Rightarrow> int \<Rightarrow> error + (string \<times> string)" where
  "FakeStimTrials_getitem obj trial =
     ebind (item_int (keys (all_stims obj)) trial) (\<lambda>name.
     ebind (getitem_dict (all_stims obj) name) (\<lambda>r.
       Inr (f_dir r, name)))"

section \<open>Reading the corpus\<close>

text \<open>
  The entries of the anchors in \<^verbatim>\<open>triplets_by_image\<close> or \<^verbatim>\<open>trials_by_image\<close>, in the order
  of the dictionary, and the entry of one anchor.
\<close>

definition anchors :: "(string, 'e corpus_value) dict \<Rightarrow> (string \<times> 'e) list" where
  "anchors tbi =
     concat (map (\<lambda>(k, v). case v of PerAnchor e \<Rightarrow> [(k, e)] | AllTuples ts \<Rightarrow> []) tbi)"

definition anchor_of :: "(string, 'e corpus_value) dict \<Rightarrow> string \<Rightarrow> 'e option" where
  "anchor_of tbi a =
     (case map_of tbi a of Some (PerAnchor e) \<Rightarrow> Some e | Some (AllTuples ts) \<Rightarrow> None
      | None \<Rightarrow> None)"

text \<open>
  The tuples the two match lists of a style-transfer anchor span: the Cartesian product,
  shape match outermost.
\<close>

definition candidate_triplets :: "string \<Rightarrow> triplet_entry \<Rightarrow> string list list" where
  "candidate_triplets a e =
     concat (map (\<lambda>s. map (\<lambda>t. [a, s, t]) (texture_matches e)) (shape_matches e))"

text \<open>
  The tuples the three match lists of a fake anchor span, before any is dropped: the
  Cartesian product, shape match outermost.
\<close>

definition candidate_trials :: "string \<Rightarrow> trial_entry \<Rightarrow> string list list" where
  "candidate_trials a e =
     concat (map (\<lambda>s. concat (map (\<lambda>t. map (\<lambda>c. [a, s, t, c]) (f_color_matches e))
       (f_texture_matches e))) (f_shape_matches e))"

text \<open>
  An index entry is sound when it is what the parser makes of the path it records, and the
  image is a cue-conflict image.
\<close>

definition cue_conflict_index :: "shape_classes \<Rightarrow> bool" where
  "cue_conflict_index d =
     (\<forall>(k, r) \<in> set d. parse_image (dir r) = Inr (k, r) \<and> shape r \<noteq> texture r)"

text \<open>
  The invariant of the fake index: no key parses into fields that hold the marker, and no
  attribute of a record is the marker.
\<close>

definition assigned_index :: "all_stims \<Rightarrow> bool" where
  "assigned_index d =
     (\<forall>(k, r) \<in> set d.
        \<not> unassigned (split_on CHR ''_'' (replace ''.png'' [] k)) \<and>
        \<not> unassigned [f_shape r, f_texture r, f_color r])"

section \<open>The index that a rebuild is to store\<close>

text \<open>
  What the index holds after a full rebuild from storage, stated over the list of the paths
  that \<^verbatim>\<open>glob\<close> returns and not by the loop that builds it. These definitions take from the
  source the parser of a path and the two tests of the loop body only; the rebuild lemmas
  compare the loops of the constructors with them.

  A listed style-transfer image is to be indexed when its parsed shape differs from its
  parsed texture. The keys of the index are the file names of these images, in the order in
  which each name is first listed; the record of a name is the one parsed from the last
  listed path with that name.
\<close>

fun first_occurrences :: "'a list \<Rightarrow> 'a list" where
  "first_occurrences [] = []"
| "first_occurrences (x # xs) = x # filter (\<lambda>y. y \<noteq> x) (first_occurrences xs)"

definition cue_conflict_named :: "string \<Rightarrow> string \<Rightarrow> bool" where
  "cue_conflict_named k p =
     (case parse_image p of Inl e \<Rightarrow> False | Inr (name, r) \<Rightarrow> name = k \<and> shape r \<noteq> texture r)"

definition cue_conflict_names :: "string list \<Rightarrow> string list" where
  "cue_conflict_names ps =
     concat (map (\<lambda>p. case parse_image p of
                         Inl e \<Rightarrow> []
                       | Inr (name, r) \<Rightarrow> if shape r \<noteq> texture r then [name] else []) ps)"

definition expected_shape_classes :: "string list \<Rightarrow> string \<Rightarrow> stimulus option" where
  "expected_shape_classes ps k =
     (case rev (filter (cue_conflict_named k) ps) of
        [] \<Rightarrow> None
      | p # qs \<Rightarrow> (case parse_image p of Inl e \<Rightarrow> None | Inr (name, r) \<Rightarrow> Some r))"

text \<open>
  A listed fake stimulus is marked when its fields hold the marker \<^verbatim>\<open>'x'\<close> or \<^verbatim>\<open>'X'\<close>: its
  file is to be deleted and it is not indexed. A path has three fields when it parses and
  its name is marked or has at least three fields (with fewer, line 352 or 353 raises
  \<^verbatim>\<open>IndexError\<close>). The keys of the index are the names of the listed stimuli that are not
  marked, in the order in which each name is first listed, and the record of a name holds
  the first three fields of the name and the last listed path with that name.
\<close>

definition marked :: "string \<Rightarrow> bool" where
  "marked p = (case parse_fake_image p of Inl e \<Rightarrow> False | Inr (img, specs) \<Rightarrow> unassigned specs)"

definition three_fields :: "string \<Rightarrow> bool" where
  "three_fields p =
     (case parse_fake_image p of Inl e \<Rightarrow> False
      | Inr (img, specs) \<Rightarrow> unassigned specs \<or> 3 \<le> length specs)"

definition assigned_named :: "string \<Rightarrow> string \<Rightarrow> bool" where
  "assigned_named k p =
     (case parse_fake_image p of Inl e \<Rightarrow> False | Inr (img, specs) \<Rightarrow> img = k \<and> \<not> unassigned specs)"

definition assigned_names :: "string list \<Rightarrow> string list" where
  "assigned_names ps =
     concat (map (\<lambda>p. case parse_fake_image p of
                         Inl e \<Rightarrow> []
                       | Inr (img, specs) \<Rightarrow> if unassigned specs then [] else [img]) ps)"

definition expected_all_stims :: "string list \<Rightarrow> string \<Rightarrow> fake_stimulus option" where
  "expected_all_stims ps k =
     (case rev (filter (assigned_named k) ps) of
        [] \<Rightarrow> None
      | p # qs \<Rightarrow>
          (case parse_fake_image p of
             Inl e \<Rightarrow> None
           | Inr (img, specs) \<Rightarrow>
               Some \<lparr>f_shape = specs ! 0, f_texture = specs ! 1, f_color = specs ! 2,
                     f_dir = p\<rparr>))"

section \<open>Example storages\<close>

text \<open>
  A style-transfer storage with three cue-conflict images and one image whose texture is
  its shape, and no JSON file yet.
\<close>

definition ex_style_world :: world where
  "ex_style_world =
     \<lparr>files = [''stimuli-shape/style-transfer/cat/cat4-truck3.png'',
               ''stimuli-shape/style-transfer/cat/cat4-cat2.png'',
               ''stimuli-shape/style-transfer/cat/cat4-boat2.png'',
               ''stimuli-shape/style-transfer/dog/dog3-truck3.png''],
      geirhos_shape_classes_json = None, geirhos_triplets_json = None,
      fake_stimulus_classes_json = None, fake_trials_json = None\<rparr>"

text \<open>
  Three cue-conflict images of the shape directory \<^verbatim>\<open>cat\<close>: two renderings of the exemplar
  \<^verbatim>\<open>cat4\<close> with two exemplars of the texture class \<^verbatim>\<open>truck\<close>, and another cat with the
  texture exemplar \<^verbatim>\<open>truck3\<close>.
\<close>

definition ex_same_attribute_world :: world where
  "ex_same_attribute_world =
     \<lparr>files = [''stimuli-shape/style-transfer/cat/cat4-truck3.png'',
               ''stimuli-shape/style-transfer/cat/cat4-truck5.png'',
               ''stimuli-shape/style-transfer/cat/cat7-truck3.png''],
      geirhos_shape_classes_json = None, geirhos_triplets_json = None,
      fake_stimulus_classes_json = None, fake_trials_json = None\<rparr>"

text \<open>
  Two images of one texture exemplar whose shape exemplars are \<^verbatim>\<open>cat1\<close> and \<^verbatim>\<open>cat10\<close>: the
  name of the first exemplar is a prefix of the name of the second.
\<close>

definition ex_prefix_world :: world where
  "ex_prefix_world =
     \<lparr>files = [''stimuli-shape/style-transfer/cat/cat1-truck3.png'',
               ''stimuli-shape/style-transfer/cat/cat10-truck3.png''],
      geirhos_shape_classes_json = None, geirhos_triplets_json = None,
      fake_stimulus_classes_json = None, fake_trials_json = None\<rparr>"

text \<open>The same two fake stimuli, listed by the directory in two orders.\<close>

definition ex_fake_listing_1 :: world where
  "ex_fake_listing_1 =
     \<lparr>files = [''stimuli-shape/fake/sq_red_blue.png'', ''stimuli-shape/fake/tri_blue_red.png''],
      geirhos_shape_classes_json = None, geirhos_triplets_json = None,
      fake_stimulus_classes_json = None, fake_trials_json = None\<rparr>"

definition ex_fake_listing_2 :: world where
  "ex_fake_listing_2 =
     \<lparr>files = [''stimuli-shape/fake/tri_blue_red.png'', ''stimuli-shape/fake/sq_red_blue.png''],
      geirhos_shape_classes_json = None, geirhos_triplets_json = None,
      fake_stimulus_classes_json = None, fake_trials_json = None\<rparr>"

text \<open>
  A fake storage of four well-formed stimuli and two whose names hold the marker, once
  in lower and once in upper case.
\<close>

definition ex_fake_world :: world where
  "ex_fake_world =
     \<lparr>files = [''stimuli-shape/fake/sq_red_blue.png'', ''stimuli-shape/fake/sq_blue_red.png'',
               ''stimuli-shape/fake/tri_red_green.png'', ''stimuli-shape/fake/x_red_green.png'',
               ''stimuli-shape/fake/tri_blue_blue.png'', ''stimuli-shape/fake/tri_X_red.png''],
      geirhos_shape_classes_json = None, geirhos_triplets_json = None,
      fake_stimulus_classes_json = None, fake_trials_json = None\<rparr>"

text \<open>
  A world whose two index files exist and hold entries that a rebuild would never store
  (a style-transfer image whose texture is its shape, a fake stimulus whose shape is the
  marker), over an empty storage.
\<close>

definition ex_cached_shape_classes :: shape_classes where
  "ex_cached_shape_classes =
     [(''cat1-cat2.png'',
       \<lparr>shape = ''cat'', texture = ''cat'', shape_spec = ''cat1'', texture_spec = ''cat2'',
        dir = ''stimuli-shape/style-transfer/cat/cat1-cat2.png''\<rparr>)]"

definition ex_cached_all_stims :: all_stims where
  "ex_cached_all_stims =
     [(''x_red_blue.png'',
       \<lparr>f_shape = ''x'', f_texture = ''red'', f_color = ''blue'',
        f_dir = ''stimuli-shape/fake/x_red_blue.png''\<rparr>)]"

definition ex_cached_world :: world where
  "ex_cached_world =
     \<lparr>files = [],
      geirhos_shape_classes_json = Some ex_cached_shape_classes,
      geirhos_triplets_json = None,
      fake_stimulus_classes_json = Some ex_cached_all_stims,
      fake_trials_json = None\<rparr>"

text \<open>
  \<^verbatim>\<open>calculate_dataset_stats\<close> over a storage whose directories exist and whose images can all
  be read: the call returns. The statistics themselves are not modelled.
\<close>

definition readable_stats :: "unit stats" where
  "readable_stats fs path n f = Inr ()"

section \<open>Errors, dictionaries and the two loading blocks\<close>

lemma ebind_Inr [simp]: "ebind (Inr x) f = f x"
  by (simp add: ebind_def)

lemma ebind_Inl [simp]: "ebind (Inl e) f = Inl e"
  by (simp add: ebind_def)

lemma ebind_eq_Inr: "ebind m f = Inr y \<longleftrightarrow> (\<exists>x. m = Inr x \<and> f x = Inr y)"
  by (cases m) simp_all

lemma set_update_subset: "set (AList.update k v al) \<subseteq> insert (k, v) (set al)"
  by (induction al) auto

lemma getitem_dict_key:
  "k \<in> set (keys d) \<Longrightarrow> \<exists>v. getitem_dict d k = Inr v \<and> map_of d k = Some v"
  by (cases "map_of d k") (auto simp: getitem_dict_def keys_def map_of_eq_None_iff)

lemma getitem_dict_Inr: "getitem_dict d k = Inr v \<longleftrightarrow> map_of d k = Some v"
  by (auto simp: getitem_dict_def split: option.splits)

lemma parse_image_dir: "parse_image p = Inr (k, r) \<Longrightarrow> dir r = p"
  by (auto simp: parse_image_def Let_def ebind_eq_Inr)

lemma add_image_ok:
  assumes "add_image d p = Inr d'" "cue_conflict_index d"
  shows "cue_conflict_index d'"
proof -
  from assms(1) obtain k r where pr: "parse_image p = Inr (k, r)"
    and d': "d' = (if shape r \<noteq> texture r then AList.update k r d else d)"
    by (auto simp: add_image_def ebind_eq_Inr split: if_splits)
  show ?thesis
  proof (cases "shape r \<noteq> texture r")
    case True
    with d' have "set d' \<subseteq> insert (k, r) (set d)" by (simp add: set_update_subset)
    with assms(2) pr True parse_image_dir[OF pr] show ?thesis
      unfolding cue_conflict_index_def by auto
  next
    case False
    with d' assms(2) show ?thesis by simp
  qed
qed

lemma create_shape_classes_ok:
  "create_shape_classes d ps = Inr d' \<Longrightarrow> cue_conflict_index d \<Longrightarrow> cue_conflict_index d'"
  by (induction ps arbitrary: d) (auto simp: ebind_eq_Inr dest: add_image_ok)

lemma create_shape_classes_append:
  "create_shape_classes d (ps @ qs) =
     ebind (create_shape_classes d ps) (\<lambda>d'. create_shape_classes d' qs)"
  by (induction ps arbitrary: d) (auto simp: ebind_def split: sum.splits)

lemma create_shape_classes_skip:
  assumes "parse_image p = Inr (k, r)" "shape r = texture r"
  shows "create_shape_classes d (ps @ p # qs) = create_shape_classes d (ps @ qs)"
  using assms by (simp add: create_shape_classes_append add_image_def)

lemma load_shape_classes_fresh:
  "geirhos_shape_classes_json w = None \<Longrightarrow>
   load_shape_classes g w =
     ebind (create_shape_classes [] (g (files w) ''stimuli-shape/style-transfer/*/*.png''))
       (\<lambda>d. Inr (d, w\<lparr>geirhos_shape_classes_json := Some d\<rparr>))"
  by (simp add: load_shape_classes_def json_load_def)

lemma load_shape_classes_cached:
  "geirhos_shape_classes_json w = Some d \<Longrightarrow> load_shape_classes g w = Inr (d, w)"
  by (simp add: load_shape_classes_def json_load_def)

lemma load_triplets_fresh:
  "geirhos_triplets_json w = None \<Longrightarrow>
   load_triplets g sd d w =
     ebind (generate_triplets g (files w) sd d (keys d) ([], [])) (\<lambda>(tbi, all).
       Inr (\<lparr>shape_classes = d, all_triplets = AllTuples all,
             triplets_by_image = AList.update ''all'' (AllTuples all) tbi\<rparr>,
            w\<lparr>geirhos_triplets_json := Some (AList.update ''all'' (AllTuples all) tbi)\<rparr>))"
  by (simp add: load_triplets_def json_load_def Let_def)

lemma load_triplets_cached:
  "geirhos_triplets_json w = Some tbi \<Longrightarrow>
   load_triplets g sd d w = Inr (obj, w') \<longleftrightarrow>
     (\<exists>a. map_of tbi ''all'' = Some a \<and> w' = w \<and>
        obj = \<lparr>shape_classes = d, all_triplets = a,
               triplets_by_image = AList.delete ''all'' tbi\<rparr>)"
  by (auto simp: load_triplets_def json_load_def getitem_dict_def split: option.splits)

lemma load_triplets_shape_classes:
  assumes "load_triplets g sd d w = Inr (obj, w')"
  shows "shape_classes obj = d"
proof (cases "geirhos_triplets_json w")
  case None
  with assms show ?thesis
    by (auto simp: load_triplets_fresh ebind_eq_Inr)
next
  case (Some tbi)
  with assms show ?thesis
    by (auto simp: load_triplets_cached)
qed

lemma load_shape_classes_cue_conflict:
  assumes "geirhos_shape_classes_json w = None" "load_shape_classes g w = Inr (d, w')"
  shows "cue_conflict_index d"
proof -
  from assms have "create_shape_classes []
      (g (files w) ''stimuli-shape/style-transfer/*/*.png'') = Inr d"
    by (auto simp: load_shape_classes_fresh ebind_eq_Inr)
  then show ?thesis
    by (rule create_shape_classes_ok) (simp add: cue_conflict_index_def)
qed

section \<open>The loop over the anchors of the style-transfer set\<close>

lemma anchors_iff: "(a, e) \<in> set (anchors tbi) \<longleftrightarrow> (a, PerAnchor e) \<in> set tbi"
  by (induction tbi) (auto simp: anchors_def split: corpus_value.splits)

lemma anchor_entry_matches:
  assumes "anchor_entry g fs sd d a = Inr e"
  shows "(\<forall>b \<in> set (shape_matches e). b \<noteq> a \<and> b \<in> set (keys d))
       \<and> (\<forall>b \<in> set (texture_matches e). b \<noteq> a \<and> b \<in> set (keys d))"
  using assms
  by (auto simp: anchor_entry_def ebind_eq_Inr Let_def find_shape_matches_def
      find_texture_matches_def)

lemma generate_triplets_entries:
  "generate_triplets g fs sd d ks st = Inr st' \<Longrightarrow> (k, PerAnchor e) \<in> set (fst st') \<Longrightarrow>
   (k, PerAnchor e) \<in> set (fst st) \<or> (k \<in> set ks \<and> anchor_entry g fs sd d k = Inr e)"
proof (induction ks arbitrary: st)
  case Nil
  then show ?case by simp
next
  case (Cons x ks)
  then obtain ex where ex: "anchor_entry g fs sd d x = Inr ex"
    and rest: "generate_triplets g fs sd d ks
         (AList.update x (PerAnchor ex) (fst st), snd st @ triplets ex) = Inr st'"
    by (auto simp: ebind_eq_Inr)
  from Cons.IH[OF rest] Cons.prems(2)
  have "(k, PerAnchor e) \<in> set (AList.update x (PerAnchor ex) (fst st))
      \<or> (k \<in> set ks \<and> anchor_entry g fs sd d k = Inr e)" by simp
  with set_update_subset[of x "PerAnchor ex" "fst st"] ex show ?case by auto
qed

lemma GeirhosTriplets_init_Inr:
  assumes "GeirhosTriplets_init stats transform g sd w = Inr (obj, w')"
  shows "\<exists>w1. load_shape_classes g w = Inr (shape_classes obj, w1)
            \<and> load_triplets g sd (shape_classes obj) w1 = Inr (obj, w')
            \<and> geirhos_triplets_json w1 = geirhos_triplets_json w \<and> files w1 = files w"
proof -
  from assms obtain d w1 where l: "load_shape_classes g w = Inr (d, w1)"
    and t: "load_triplets g sd d w1 = Inr (obj, w')"
    by (auto simp: GeirhosTriplets_init_def ebind_eq_Inr)
  from l have "geirhos_triplets_json w1 = geirhos_triplets_json w \<and> files w1 = files w"
    by (cases "geirhos_shape_classes_json w")
       (auto simp: load_shape_classes_fresh load_shape_classes_cached ebind_eq_Inr)
  with l t load_triplets_shape_classes[OF t] show ?thesis by auto
qed

lemma fresh_triplets_anchor:
  assumes "geirhos_triplets_json w = None" "load_triplets g sd d w = Inr (obj, w')"
    "(a, e) \<in> set (anchors (triplets_by_image obj))"
  shows "a \<in> set (keys d) \<and> anchor_entry g (files w) sd d a = Inr e"
proof -
  from assms(1,2) obtain tbi al where
    gen: "generate_triplets g (files w) sd d (keys d) ([], []) = Inr (tbi, al)"
    and obj: "triplets_by_image obj = AList.update ''all'' (AllTuples al) tbi"
    by (auto simp: load_triplets_fresh ebind_eq_Inr)
  from assms(3) obj have "(a, PerAnchor e) \<in> set (AList.update ''all'' (AllTuples al) tbi)"
    by (simp add: anchors_iff)
  with set_update_subset[of "''all''" "AllTuples al" tbi]
  have "(a, PerAnchor e) \<in> set tbi" by auto
  with generate_triplets_entries[OF gen, of a e] show ?thesis by simp
qed

section \<open>The fake index\<close>

lemma load_all_stims_fresh:
  "fake_stimulus_classes_json w = None \<Longrightarrow>
   load_all_stims g fd w =
     ebind (create_all_stims ([], files w) (g (files w) (fd @ ''/*.png'')))
       (\<lambda>(d, fs). Inr (d, w\<lparr>files := fs, fake_stimulus_classes_json := Some d\<rparr>))"
  by (simp add: load_all_stims_def json_load_def)

lemma load_all_stims_cached:
  "fake_stimulus_classes_json w = Some d \<Longrightarrow> load_all_stims g fd w = Inr (d, w)"
  by (simp add: load_all_stims_def json_load_def)

lemma load_trials_fresh:
  "fake_trials_json w = None \<Longrightarrow>
   load_trials d w =
     ebind (generate_trials d (keys d) ([], [])) (\<lambda>(tbi, all).
       Inr (\<lparr>all_stims = d, all_trials = AllTuples all,
             trials_by_image = AList.update ''all'' (AllTuples all) tbi\<rparr>,
            w\<lparr>fake_trials_json := Some (AList.update ''all'' (AllTuples all) tbi)\<rparr>))"
  by (simp add: load_trials_def json_load_def Let_def)

lemma load_trials_cached:
  "fake_trials_json w = Some tbi \<Longrightarrow>
   load_trials d w = Inr (obj, w') \<longleftrightarrow>
     (\<exists>a. map_of tbi ''all'' = Some a \<and> w' = w \<and>
        obj = \<lparr>all_stims = d, all_trials = a,
               trials_by_image = AList.delete ''all'' tbi\<rparr>)"
  by (auto simp: load_trials_def json_load_def getitem_dict_def split: option.splits)

lemma load_trials_all_stims:
  assumes "load_trials d w = Inr (obj, w')"
  shows "all_stims obj = d \<and> files w' = files w
       \<and> fake_stimulus_classes_json w' = fake_stimulus_classes_json w"
proof (cases "fake_trials_json w")
  case None
  with assms show ?thesis
    by (auto simp: load_trials_fresh ebind_eq_Inr)
next
  case (Some tbi)
  with assms show ?thesis
    by (auto simp: load_trials_cached)
qed

lemma FakeStimTrials_init_Inr:
  assumes "FakeStimTrials_init stats transform g fd w = Inr (obj, w')"
  shows "\<exists>w1. load_all_stims g fd w = Inr (all_stims obj, w1)
            \<and> load_trials (all_stims obj) w1 = Inr (obj, w')
            \<and> fake_trials_json w1 = fake_trials_json w \<and> files w' = files w1"
proof -
  from assms obtain d w1 where l: "load_all_stims g fd w = Inr (d, w1)"
    and t: "load_trials d w1 = Inr (obj, w')"
    by (auto simp: FakeStimTrials_init_def ebind_eq_Inr)
  from l have "fake_trials_json w1 = fake_trials_json w"
    by (cases "fake_stimulus_classes_json w")
       (auto simp: load_all_stims_fresh load_all_stims_cached ebind_eq_Inr)
  with l t load_trials_all_stims[OF t] show ?thesis by auto
qed

lemma parse_fake_image_specs:
  "parse_fake_image p = Inr (img, specs) \<Longrightarrow> specs = split_on CHR ''_'' (replace ''.png'' [] img)"
  by (auto simp: parse_fake_image_def ebind_eq_Inr)

lemma item_in_set: "item xs i = Inr x \<Longrightarrow> x \<in> set xs"
  by (auto simp: item_def split: if_splits)

lemma not_unassigned_in:
  "\<not> unassigned specs \<Longrightarrow> s \<in> set specs \<Longrightarrow> s \<noteq> ''x'' \<and> s \<noteq> ''X''"
  by (auto simp: unassigned_def)

lemma add_fake_image_cases:
  assumes "add_fake_image st p = Inr st'"
  obtains (removed) img specs where "parse_fake_image p = Inr (img, specs)" "unassigned specs"
      "fst st' = fst st" "snd st' = removeAll p (snd st)"
  | (stored) img specs s t c where "parse_fake_image p = Inr (img, specs)" "\<not> unassigned specs"
      "s \<in> set specs" "t \<in> set specs" "c \<in> set specs" "snd st' = snd st"
      "fst st' = AList.update img \<lparr>f_shape = s, f_texture = t, f_color = c, f_dir = p\<rparr> (fst st)"
proof -
  from assms obtain img specs where p: "parse_fake_image p = Inr (img, specs)"
    by (auto simp: add_fake_image_def ebind_eq_Inr)
  show thesis
  proof (cases "unassigned specs")
    case True
    with assms p have "fst st' = fst st" "snd st' = removeAll p (snd st)"
      by (auto simp: add_fake_image_def split: if_splits)
    with p True show thesis by (rule removed)
  next
    case False
    with assms p obtain s t c where "item specs 0 = Inr s" "item specs 1 = Inr t"
      "item specs 2 = Inr c"
      "st' = (AList.update img \<lparr>f_shape = s, f_texture = t, f_color = c, f_dir = p\<rparr> (fst st), snd st)"
      by (auto simp: add_fake_image_def ebind_eq_Inr)
    with p False show thesis by (intro stored[of img specs s t c]) (auto dest: item_in_set)
  qed
qed

lemma add_fake_image_ok:
  assumes "add_fake_image st p = Inr st'" "assigned_index (fst st)"
  shows "assigned_index (fst st')"
  using assms(1)
proof (cases rule: add_fake_image_cases)
  case removed
  with assms(2) show ?thesis by simp
next
  case (stored img specs s t c)
  from stored(2-5) have "\<not> unassigned [s, t, c]"
    by (auto simp: unassigned_def)
  moreover from stored(1,2) have "\<not> unassigned (split_on CHR ''_'' (replace ''.png'' [] img))"
    by (auto dest: parse_fake_image_specs)
  moreover have "set (fst st') \<subseteq>
      insert (img, \<lparr>f_shape = s, f_texture = t, f_color = c, f_dir = p\<rparr>) (set (fst st))"
    unfolding stored(7) by (rule set_update_subset)
  ultimately show ?thesis using assms(2)
    unfolding assigned_index_def by auto
qed

lemma add_fake_image_files: "add_fake_image st p = Inr st' \<Longrightarrow> set (snd st') \<subseteq> set (snd st)"
  by (erule add_fake_image_cases) auto

lemma create_all_stims_ok:
  "create_all_stims st ps = Inr st' \<Longrightarrow> assigned_index (fst st) \<Longrightarrow> assigned_index (fst st')"
  by (induction ps arbitrary: st) (auto simp: ebind_eq_Inr dest: add_fake_image_ok)

lemma create_all_stims_files:
  "create_all_stims st ps = Inr st' \<Longrightarrow> set (snd st') \<subseteq> set (snd st)"
proof (induction ps arbitrary: st)
  case Nil
  then show ?case by simp
next
  case (Cons p ps)
  then obtain st1 where a: "add_fake_image st p = Inr st1"
    and c: "create_all_stims st1 ps = Inr st'" by (auto simp: ebind_eq_Inr)
  from Cons.IH[OF c] add_fake_image_files[OF a] show ?case by blast
qed

lemma create_all_stims_removed:
  "create_all_stims st ps = Inr st' \<Longrightarrow> p \<in> set ps \<Longrightarrow>
   parse_fake_image p = Inr (img, specs) \<Longrightarrow> unassigned specs \<Longrightarrow> p \<notin> set (snd st')"
proof (induction ps arbitrary: st)
  case Nil
  then show ?case by simp
next
  case (Cons q ps)
  then obtain st1 where a: "add_fake_image st q = Inr st1"
    and c: "create_all_stims st1 ps = Inr st'" by (auto simp: ebind_eq_Inr)
  show ?case
  proof (cases "p \<in> set ps")
    case True
    with Cons.IH[OF c] Cons.prems(3,4) show ?thesis by simp
  next
    case False
    with Cons.prems(2) have q: "q = p" by simp
    from a Cons.prems(3,4) have "p \<notin> set (snd st1)"
      unfolding q by (cases rule: add_fake_image_cases) auto
    with create_all_stims_files[OF c] show ?thesis by blast
  qed
qed

lemma fresh_all_stims:
  assumes "fake_stimulus_classes_json w = None" "load_all_stims g fd w = Inr (d, w1)"
  shows "\<exists>fs. create_all_stims ([], files w) (g (files w) (fd @ ''/*.png'')) = Inr (d, fs)
           \<and> files w1 = fs"
  using assms by (auto simp: load_all_stims_fresh ebind_eq_Inr)

section \<open>The fake trials\<close>

lemma find_matches_iff:
  "find_matches skip d ks = Inr ms \<Longrightarrow>
   m \<in> set ms \<longleftrightarrow> m \<in> set ks \<and> (\<exists>r2. map_of d m = Some r2 \<and> \<not> skip m r2)"
proof (induction ks arbitrary: ms)
  case Nil
  then show ?case by simp
next
  case (Cons k ks)
  then obtain r2 ms' where r2: "map_of d k = Some r2"
    and rest: "find_matches skip d ks = Inr ms'"
    and ms: "ms = (if skip k r2 then ms' else k # ms')"
    by (auto simp: ebind_eq_Inr getitem_dict_Inr)
  from Cons.IH[OF rest] r2 ms show ?case by auto
qed

lemma skip_shape_match_sym:
  "skip_shape_match a ra b rb \<longleftrightarrow> skip_shape_match b rb a ra"
  by (auto simp: skip_shape_match_def)

lemma skip_texture_match_sym:
  "skip_texture_match a ra b rb \<longleftrightarrow> skip_texture_match b rb a ra"
  by (auto simp: skip_texture_match_def)

lemma skip_color_match_sym:
  "skip_color_match a ra b rb \<longleftrightarrow> skip_color_match b rb a ra"
  by (auto simp: skip_color_match_def)

lemma fake_anchor_entry_Inr:
  assumes "fake_anchor_entry d a = Inr e"
  shows "\<exists>r. map_of d a = Some r
     \<and> (\<forall>b. b \<in> set (f_shape_matches e) \<longleftrightarrow>
           b \<in> set (keys d) \<and> (\<exists>r2. map_of d b = Some r2 \<and> \<not> skip_shape_match a r b r2))
     \<and> (\<forall>b. b \<in> set (f_texture_matches e) \<longleftrightarrow>
           b \<in> set (keys d) \<and> (\<exists>r2. map_of d b = Some r2 \<and> \<not> skip_texture_match a r b r2))
     \<and> (\<forall>b. b \<in> set (f_color_matches e) \<longleftrightarrow>
           b \<in> set (keys d) \<and> (\<exists>r2. map_of d b = Some r2 \<and> \<not> skip_color_match a r b r2))
     \<and> trials e = make_trials a (f_shape_matches e) (f_texture_matches e) (f_color_matches e)"
proof -
  from assms obtain r sm tm cm where r: "map_of d a = Some r"
    and sm: "find_matches (skip_shape_match a r) d (keys d) = Inr sm"
    and tm: "find_matches (skip_texture_match a r) d (keys d) = Inr tm"
    and cm: "find_matches (skip_color_match a r) d (keys d) = Inr cm"
    and e: "e = \<lparr>f_shape_matches = sm, f_texture_matches = tm, f_color_matches = cm,
            trials = make_trials a sm tm cm\<rparr>"
    by (auto simp: fake_anchor_entry_def ebind_eq_Inr getitem_dict_Inr)
  show ?thesis
    using r find_matches_iff[OF sm] find_matches_iff[OF tm] find_matches_iff[OF cm]
    by (simp add: e)
qed

lemma fake_anchor_entry_not_anchor:
  assumes "fake_anchor_entry d a = Inr e"
  shows "a \<notin> set (f_shape_matches e) \<and> a \<notin> set (f_texture_matches e)
       \<and> a \<notin> set (f_color_matches e)"
  using fake_anchor_entry_Inr[OF assms]
  by (auto simp: skip_shape_match_def skip_texture_match_def skip_color_match_def)

lemma make_trials_color:
  "concat (map (\<lambda>c. if c = t \<or> c = s then [] else [[a, s, t, c]]) cm) =
     filter (\<lambda>x. t \<noteq> s \<longrightarrow> distinct x) (map (\<lambda>c. [a, s, t, c]) cm)"
  if "a \<noteq> s" "a \<noteq> t" "a \<notin> set cm" "t \<noteq> s"
  using that by (induction cm) auto

lemma filter_same_pair:
  "filter distinct (map (\<lambda>c. [a, s, s, c]) cm) = []"
  by (induction cm) auto

lemma make_trials_texture:
  "concat (map (\<lambda>t. if t = s then []
       else concat (map (\<lambda>c. if c = t \<or> c = s then [] else [[a, s, t, c]]) cm)) tm) =
     filter distinct (concat (map (\<lambda>t. map (\<lambda>c. [a, s, t, c]) cm) tm))"
  if "a \<noteq> s" "a \<notin> set tm" "a \<notin> set cm"
  using that
proof (induction tm)
  case Nil
  then show ?case by simp
next
  case (Cons t tm)
  show ?case
  proof (cases "t = s")
    case True
    with Cons show ?thesis by (simp add: filter_same_pair)
  next
    case False
    with Cons make_trials_color[of a s t cm] show ?thesis by simp
  qed
qed

lemma make_trials_filter:
  assumes "a \<notin> set sm" "a \<notin> set tm" "a \<notin> set cm"
  shows "make_trials a sm tm cm =
     filter distinct (concat (map (\<lambda>s. concat (map (\<lambda>t. map (\<lambda>c. [a, s, t, c]) cm) tm)) sm))"
  using assms(1)
proof (induction sm)
  case Nil
  then show ?case by (simp add: make_trials_def)
next
  case (Cons s sm)
  then have "a \<noteq> s" by auto
  from make_trials_texture[OF this assms(2,3)] Cons show ?case
    by (simp add: make_trials_def)
qed

lemma fake_anchor_entry_trials:
  assumes "fake_anchor_entry d a = Inr e"
  shows "trials e = filter distinct (candidate_trials a e)"
proof -
  from fake_anchor_entry_Inr[OF assms] have
    "trials e = make_trials a (f_shape_matches e) (f_texture_matches e) (f_color_matches e)"
    by auto
  with fake_anchor_entry_not_anchor[OF assms] show ?thesis
    by (simp add: make_trials_filter candidate_trials_def)
qed

lemma candidate_trials_shape:
  "t \<in> set (candidate_trials a e) \<Longrightarrow> \<exists>s tm c. t = [a, s, tm, c]"
  by (auto simp: candidate_trials_def)

lemma length_candidate_trials:
  "length (candidate_trials a e) =
     length (f_shape_matches e) * length (f_texture_matches e) * length (f_color_matches e)"
proof -
  have inner: "length (concat (map (\<lambda>t. map (\<lambda>c. [a, s, t, c]) cm) tm)) = length tm * length cm"
    for s and tm cm :: "string list"
    by (induction tm) auto
  have "length (concat (map (\<lambda>s. concat (map (\<lambda>t. map (\<lambda>c. [a, s, t, c]) cm) tm)) sm))
      = length sm * (length tm * length cm)" for sm tm cm :: "string list"
    by (induction sm) (auto simp: inner)
  then show ?thesis by (simp add: candidate_trials_def mult.assoc)
qed

lemma generate_trials_entries:
  "generate_trials d ks st = Inr st' \<Longrightarrow> (k, PerAnchor e) \<in> set (fst st') \<Longrightarrow>
   (k, PerAnchor e) \<in> set (fst st) \<or> (k \<in> set ks \<and> fake_anchor_entry d k = Inr e)"
proof (induction ks arbitrary: st)
  case Nil
  then show ?case by simp
next
  case (Cons x ks)
  then obtain ex where ex: "fake_anchor_entry d x = Inr ex"
    and rest: "generate_trials d ks
         (AList.update x (PerAnchor ex) (fst st), snd st @ trials ex) = Inr st'"
    by (auto simp: ebind_eq_Inr)
  from Cons.IH[OF rest] Cons.prems(2)
  have "(k, PerAnchor e) \<in> set (AList.update x (PerAnchor ex) (fst st))
      \<or> (k \<in> set ks \<and> fake_anchor_entry d k = Inr e)" by simp
  with set_update_subset[of x "PerAnchor ex" "fst st"] ex show ?case by auto
qed

lemma generate_trials_all:
  "generate_trials d ks st = Inr st' \<Longrightarrow> t \<in> set (snd st') \<Longrightarrow>
   t \<in> set (snd st) \<or> (\<exists>k e. k \<in> set ks \<and> fake_anchor_entry d k = Inr e \<and> t \<in> set (trials e))"
proof (induction ks arbitrary: st)
  case Nil
  then show ?case by simp
next
  case (Cons x ks)
  then obtain ex where ex: "fake_anchor_entry d x = Inr ex"
    and rest: "generate_trials d ks
         (AList.update x (PerAnchor ex) (fst st), snd st @ trials ex) = Inr st'"
    by (auto simp: ebind_eq_Inr)
  from Cons.IH[OF rest] Cons.prems(2) ex show ?case by auto
qed

lemma generate_trials_lookup:
  "generate_trials d ks st = Inr st' \<Longrightarrow>
   (if a \<in> set ks
    then \<exists>e. fake_anchor_entry d a = Inr e \<and> map_of (fst st') a = Some (PerAnchor e)
    else map_of (fst st') a = map_of (fst st) a)"
proof (induction ks arbitrary: st)
  case Nil
  then show ?case by simp
next
  case (Cons x ks)
  then obtain ex where ex: "fake_anchor_entry d x = Inr ex"
    and rest: "generate_trials d ks
         (AList.update x (PerAnchor ex) (fst st), snd st @ trials ex) = Inr st'"
    by (auto simp: ebind_eq_Inr)
  show ?case
  proof (cases "a \<in> set ks")
    case True
    with Cons.IH[OF rest] show ?thesis by simp
  next
    case False
    with Cons.IH[OF rest]
    have "map_of (fst st') a = map_of (AList.update x (PerAnchor ex) (fst st)) a" by simp
    with False ex show ?thesis by (auto simp: update_conv')
  qed
qed

lemma fresh_trials:
  assumes "fake_trials_json w = None" "load_trials d w = Inr (obj, w')"
  shows "\<exists>tbi al. generate_trials d (keys d) ([], []) = Inr (tbi, al)
            \<and> all_trials obj = AllTuples al
            \<and> trials_by_image obj = AList.update ''all'' (AllTuples al) tbi"
  using assms by (auto simp: load_trials_fresh ebind_eq_Inr)

lemma fresh_trials_anchor:
  assumes "fake_trials_json w = None" "load_trials d w = Inr (obj, w')"
    "(a, e) \<in> set (anchors (trials_by_image obj))"
  shows "a \<in> set (keys d) \<and> fake_anchor_entry d a = Inr e"
proof -
  from fresh_trials[OF assms(1,2)] obtain tbi al where
    gen: "generate_trials d (keys d) ([], []) = Inr (tbi, al)"
    and obj: "trials_by_image obj = AList.update ''all'' (AllTuples al) tbi"
    by auto
  from assms(3) obj
  have "(a, PerAnchor e) \<in> set (AList.update ''all'' (AllTuples al) tbi)"
    by (simp add: anchors_iff)
  with set_update_subset[of "''all''" "AllTuples al" tbi]
  have "(a, PerAnchor e) \<in> set tbi" by auto
  with generate_trials_entries[OF gen, of a e] show ?thesis by simp
qed

section \<open>Counting the tuples\<close>

lemma update_fresh: "k \<notin> fst ` set al \<Longrightarrow> AList.update k v al = al @ [(k, v)]"
  by (induction al) auto

lemma anchors_append: "anchors (xs @ ys) = anchors xs @ anchors ys"
  by (simp add: anchors_def)

lemma anchors_single:
  "anchors [(k, PerAnchor e)] = [(k, e)]" "anchors [(k, AllTuples ts)] = []"
  by (simp_all add: anchors_def)

lemma length_make_triplets: "length (make_triplets a sm tm) = length sm * length tm"
  by (induction sm) (simp_all add: make_triplets_def)

lemma anchor_entry_count:
  "anchor_entry g fs sd d a = Inr e \<Longrightarrow>
   length (triplets e) = length (shape_matches e) * length (texture_matches e)"
  by (auto simp: anchor_entry_def ebind_eq_Inr Let_def length_make_triplets)

lemma fake_anchor_entry_count:
  assumes "fake_anchor_entry d a = Inr e"
  shows "length (trials e) =
     length (f_shape_matches e) * length (f_texture_matches e) * length (f_color_matches e)
       - length (filter (\<lambda>t. \<not> distinct t) (candidate_trials a e))"
proof -
  have "length (filter distinct (candidate_trials a e))
      + length (filter (\<lambda>t. \<not> distinct t) (candidate_trials a e))
      = length (candidate_trials a e)"
    by (rule sum_length_filter_compl)
  with fake_anchor_entry_trials[OF assms] show ?thesis
    by (simp add: length_candidate_trials)
qed

lemma generate_triplets_count:
  assumes "generate_triplets g fs sd d ks st = Inr st'" "distinct ks"
    "set ks \<inter> fst ` set (fst st) = {}"
    "\<And>k e. anchor_entry g fs sd d k = Inr e \<Longrightarrow> length (triplets e) = cnt (k, e)"
  shows "sum_list (map cnt (anchors (fst st'))) + length (snd st)
           = sum_list (map cnt (anchors (fst st))) + length (snd st')
       \<and> map fst (anchors (fst st')) = map fst (anchors (fst st)) @ ks"
  using assms(1-3)
proof (induction ks arbitrary: st)
  case Nil
  then show ?case by simp
next
  case (Cons x ks)
  then obtain ex where ex: "anchor_entry g fs sd d x = Inr ex"
    and rest: "generate_triplets g fs sd d ks
         (AList.update x (PerAnchor ex) (fst st), snd st @ triplets ex) = Inr st'"
    by (auto simp: ebind_eq_Inr)
  from Cons.prems(3) have "x \<notin> fst ` set (fst st)" by auto
  then have u: "AList.update x (PerAnchor ex) (fst st) = fst st @ [(x, PerAnchor ex)]"
    by (rule update_fresh)
  from Cons.prems(2,3) have
    "set ks \<inter> fst ` set (fst (fst st @ [(x, PerAnchor ex)], snd st @ triplets ex)) = {}"
    by auto
  with Cons.IH[OF rest[unfolded u]] Cons.prems(2) assms(4)[OF ex] show ?case
    by (simp add: anchors_append anchors_single)
qed

lemma generate_trials_count:
  assumes "generate_trials d ks st = Inr st'" "distinct ks"
    "set ks \<inter> fst ` set (fst st) = {}"
    "\<And>k e. fake_anchor_entry d k = Inr e \<Longrightarrow> length (trials e) = cnt (k, e)"
  shows "sum_list (map cnt (anchors (fst st'))) + length (snd st)
           = sum_list (map cnt (anchors (fst st))) + length (snd st')
       \<and> map fst (anchors (fst st')) = map fst (anchors (fst st)) @ ks"
  using assms(1-3)
proof (induction ks arbitrary: st)
  case Nil
  then show ?case by simp
next
  case (Cons x ks)
  then obtain ex where ex: "fake_anchor_entry d x = Inr ex"
    and rest: "generate_trials d ks
         (AList.update x (PerAnchor ex) (fst st), snd st @ trials ex) = Inr st'"
    by (auto simp: ebind_eq_Inr)
  from Cons.prems(3) have "x \<notin> fst ` set (fst st)" by auto
  then have u: "AList.update x (PerAnchor ex) (fst st) = fst st @ [(x, PerAnchor ex)]"
    by (rule update_fresh)
  from Cons.prems(2,3) have
    "set ks \<inter> fst ` set (fst (fst st @ [(x, PerAnchor ex)], snd st @ trials ex)) = {}"
    by auto
  with Cons.IH[OF rest[unfolded u]] Cons.prems(2) assms(4)[OF ex] show ?case
    by (simp add: anchors_append anchors_single)
qed

lemma generate_triplets_dom:
  "generate_triplets g fs sd d ks st = Inr st' \<Longrightarrow>
   fst ` set (fst st') = fst ` set (fst st) \<union> set ks"
proof (induction ks arbitrary: st)
  case Nil
  then show ?case by simp
next
  case (Cons x ks)
  then obtain ex where
    rest: "generate_triplets g fs sd d ks
         (AList.update x (PerAnchor ex) (fst st), snd st @ triplets ex) = Inr st'"
    by (auto simp: ebind_eq_Inr)
  from Cons.IH[OF rest] show ?case by (auto simp: dom_update)
qed

lemma generate_trials_dom:
  "generate_trials d ks st = Inr st' \<Longrightarrow> fst ` set (fst st') = fst ` set (fst st) \<union> set ks"
proof (induction ks arbitrary: st)
  case Nil
  then show ?case by simp
next
  case (Cons x ks)
  then obtain ex where
    rest: "generate_trials d ks
         (AList.update x (PerAnchor ex) (fst st), snd st @ trials ex) = Inr st'"
    by (auto simp: ebind_eq_Inr)
  from Cons.IH[OF rest] show ?case by (auto simp: dom_update)
qed

lemma fresh_triplets:
  assumes "geirhos_triplets_json w = None" "load_triplets g sd d w = Inr (obj, w')"
  shows "\<exists>tbi al. generate_triplets g (files w) sd d (keys d) ([], []) = Inr (tbi, al)
            \<and> all_triplets obj = AllTuples al
            \<and> triplets_by_image obj = AList.update ''all'' (AllTuples al) tbi"
  using assms by (auto simp: load_triplets_fresh ebind_eq_Inr)

lemma triplets_count:
  assumes "geirhos_triplets_json w = None"
    and "GeirhosTriplets_init stats transform g shape_dir w = Inr (obj, w')"
    and "distinct (keys (shape_classes obj))" and "''all'' \<notin> set (keys (shape_classes obj))"
  shows "\<exists>al. all_triplets obj = AllTuples al
       \<and> length al =
           sum_list (map (\<lambda>(a, e). length (shape_matches e) * length (texture_matches e))
             (anchors (triplets_by_image obj)))
       \<and> map fst (anchors (triplets_by_image obj)) = keys (shape_classes obj)"
proof -
  let ?d = "shape_classes obj"
  from GeirhosTriplets_init_Inr[OF assms(2)] assms(1) obtain w1 where
    t: "load_triplets g shape_dir ?d w1 = Inr (obj, w')"
    and n: "geirhos_triplets_json w1 = None" by auto
  from fresh_triplets[OF n t] obtain tbi al where
    gen: "generate_triplets g (files w1) shape_dir ?d (keys ?d) ([], []) = Inr (tbi, al)"
    and al: "all_triplets obj = AllTuples al"
    and obj: "triplets_by_image obj = AList.update ''all'' (AllTuples al) tbi"
    by auto
  from generate_triplets_dom[OF gen] assms(4) have "''all'' \<notin> fst ` set tbi" by simp
  then have "anchors (triplets_by_image obj) = anchors tbi"
    by (simp add: obj update_fresh anchors_append anchors_single)
  moreover from generate_triplets_count[OF gen assms(3), where
      cnt = "\<lambda>(a, e). length (shape_matches e) * length (texture_matches e)"]
    anchor_entry_count
  have "sum_list (map (\<lambda>(a, e). length (shape_matches e) * length (texture_matches e))
          (anchors tbi)) = length al
       \<and> map fst (anchors tbi) = keys ?d"
    by (simp add: anchors_def)
  ultimately show ?thesis using al by simp
qed

lemma trials_count:
  assumes "fake_trials_json w = None"
    and "FakeStimTrials_init stats transform g fake_dir w = Inr (obj, w')"
    and "distinct (keys (all_stims obj))" and "''all'' \<notin> set (keys (all_stims obj))"
  shows "\<exists>al. all_trials obj = AllTuples al
       \<and> length al =
           sum_list (map (\<lambda>(a, e).
               length (f_shape_matches e) * length (f_texture_matches e) * length (f_color_matches e)
                 - length (filter (\<lambda>t. \<not> distinct t) (candidate_trials a e)))
             (anchors (trials_by_image obj)))
       \<and> map fst (anchors (trials_by_image obj)) = keys (all_stims obj)"
proof -
  let ?d = "all_stims obj"
  from FakeStimTrials_init_Inr[OF assms(2)] assms(1) obtain w1 where
    t: "load_trials ?d w1 = Inr (obj, w')"
    and n: "fake_trials_json w1 = None" by auto
  from fresh_trials[OF n t] obtain tbi al where
    gen: "generate_trials ?d (keys ?d) ([], []) = Inr (tbi, al)"
    and al: "all_trials obj = AllTuples al"
    and obj: "trials_by_image obj = AList.update ''all'' (AllTuples al) tbi"
    by auto
  from generate_trials_dom[OF gen] assms(4) have "''all'' \<notin> fst ` set tbi" by simp
  then have "anchors (trials_by_image obj) = anchors tbi"
    by (simp add: obj update_fresh anchors_append anchors_single)
  moreover from generate_trials_count[OF gen assms(3), where
      cnt = "\<lambda>(a, e).
               length (f_shape_matches e) * length (f_texture_matches e) * length (f_color_matches e)
                 - length (filter (\<lambda>t. \<not> distinct t) (candidate_trials a e))"]
    fake_anchor_entry_count
  have "sum_list (map (\<lambda>(a, e).
               length (f_shape_matches e) * length (f_texture_matches e) * length (f_color_matches e)
                 - length (filter (\<lambda>t. \<not> distinct t) (candidate_trials a e)))
          (anchors tbi)) = length al
       \<and> map fst (anchors tbi) = keys ?d"
    by (simp add: anchors_def)
  ultimately show ?thesis using al by simp
qed

lemma trials_filtered_product:
  assumes "fake_trials_json w = None"
    and "FakeStimTrials_init stats transform g fake_dir w = Inr (obj, w')"
  shows "\<forall>(a, e) \<in> set (anchors (trials_by_image obj)).
           trials e = filter distinct (candidate_trials a e)"
proof -
  from FakeStimTrials_init_Inr[OF assms(2)] assms(1) obtain w1 where
    t: "load_trials (all_stims obj) w1 = Inr (obj, w')"
    and n: "fake_trials_json w1 = None" by auto
  from fresh_trials_anchor[OF n t] fake_anchor_entry_trials show ?thesis by blast
qed

section \<open>Persisting and reloading\<close>

lemma load_triplets_world:
  assumes "load_triplets g sd d w = Inr (obj, w')"
  shows "files w' = files w \<and> geirhos_shape_classes_json w' = geirhos_shape_classes_json w"
proof (cases "geirhos_triplets_json w")
  case None
  with assms show ?thesis
    by (auto simp: load_triplets_fresh ebind_eq_Inr)
next
  case (Some tbi)
  with assms show ?thesis
    by (auto simp: load_triplets_cached)
qed

lemma shape_classes_persisted:
  "load_shape_classes g w = Inr (d, w1) \<Longrightarrow> geirhos_shape_classes_json w1 = Some d"
  by (cases "geirhos_shape_classes_json w")
     (auto simp: load_shape_classes_fresh load_shape_classes_cached ebind_eq_Inr)

lemma all_stims_persisted:
  "load_all_stims g fd w = Inr (d, w1) \<Longrightarrow> fake_stimulus_classes_json w1 = Some d"
  by (cases "fake_stimulus_classes_json w")
     (auto simp: load_all_stims_fresh load_all_stims_cached ebind_eq_Inr)

lemma triplets_persisted:
  assumes "load_triplets g sd d w = Inr (obj, w')"
  shows "\<exists>tb. geirhos_triplets_json w' = Some tb
           \<and> map_of tb ''all'' = Some (all_triplets obj)
           \<and> AList.delete ''all'' tb = AList.delete ''all'' (triplets_by_image obj)"
proof (cases "geirhos_triplets_json w")
  case None
  with assms show ?thesis
    by (auto simp: load_triplets_fresh ebind_eq_Inr update_conv')
next
  case (Some tbi)
  with assms show ?thesis
    by (auto simp: load_triplets_cached delete_idem)
qed

lemma trials_persisted:
  assumes "load_trials d w = Inr (obj, w')"
  shows "\<exists>tb. fake_trials_json w' = Some tb
           \<and> map_of tb ''all'' = Some (all_trials obj)
           \<and> AList.delete ''all'' tb = AList.delete ''all'' (trials_by_image obj)"
proof (cases "fake_trials_json w")
  case None
  with assms show ?thesis
    by (auto simp: load_trials_fresh ebind_eq_Inr update_conv')
next
  case (Some tbi)
  with assms show ?thesis
    by (auto simp: load_trials_cached delete_idem)
qed

lemma triplets_reload:
  assumes "GeirhosTriplets_init stats transform g shape_dir w = Inr (obj, w1)"
  shows "\<exists>obj'. GeirhosTriplets_init stats transform g' shape_dir' w1 = Inr (obj', w1)
     \<and> geirhos_shape_classes_json w1 = Some (shape_classes obj)
     \<and> shape_classes obj' = shape_classes obj
     \<and> all_triplets obj' = all_triplets obj
     \<and> triplets_by_image obj' = AList.delete ''all'' (triplets_by_image obj)
     \<and> (\<forall>a. a \<noteq> ''all'' \<longrightarrow>
           map_of (triplets_by_image obj') a = map_of (triplets_by_image obj) a)
     \<and> ''all'' \<notin> set (keys (triplets_by_image obj'))
     \<and> (\<exists>tb. geirhos_triplets_json w1 = Some tb
           \<and> map_of tb ''all'' = Some (all_triplets obj))"
proof -
  let ?d = "shape_classes obj"
  from GeirhosTriplets_init_Inr[OF assms] obtain w0 where
    l: "load_shape_classes g w = Inr (?d, w0)"
    and t: "load_triplets g shape_dir ?d w0 = Inr (obj, w1)" by auto
  from assms obtain tr where
    "image_processing stats transform (files w) ''stimuli-shape/style-transfer'' False = Inr tr"
    by (auto simp: GeirhosTriplets_init_def ebind_eq_Inr)
  with load_triplets_world[OF t] GeirhosTriplets_init_Inr[OF assms] l have
    p: "image_processing stats transform (files w1) ''stimuli-shape/style-transfer'' False = Inr tr"
    by auto
  from shape_classes_persisted[OF l] load_triplets_world[OF t]
  have s: "geirhos_shape_classes_json w1 = Some ?d" by simp
  from triplets_persisted[OF t] obtain tb where
    tb: "geirhos_triplets_json w1 = Some tb"
    and al: "map_of tb ''all'' = Some (all_triplets obj)"
    and de: "AList.delete ''all'' tb = AList.delete ''all'' (triplets_by_image obj)" by auto
  let ?obj' = "\<lparr>shape_classes = ?d, all_triplets = all_triplets obj,
                triplets_by_image = AList.delete ''all'' (triplets_by_image obj)\<rparr>"
  from tb al de have "load_triplets g' shape_dir' ?d w1 = Inr (?obj', w1)"
    by (simp add: load_triplets_cached)
  with s p have "GeirhosTriplets_init stats transform g' shape_dir' w1 = Inr (?obj', w1)"
    by (simp add: GeirhosTriplets_init_def load_shape_classes_cached)
  moreover have "''all'' \<notin> set (keys (triplets_by_image ?obj'))"
    using delete_notin_dom[of "''all''" "triplets_by_image obj"] by (simp add: keys_def)
  ultimately show ?thesis using s tb al
    by (intro exI[of _ ?obj']) simp
qed

lemma trials_reload:
  assumes "FakeStimTrials_init stats transform g fake_dir w = Inr (obj, w1)"
    and "image_processing stats' transform' (files w1) ''stimuli-shape/fake'' True = Inr tr"
  shows "\<exists>obj'. FakeStimTrials_init stats' transform' g' fake_dir' w1 = Inr (obj', w1)
     \<and> fake_stimulus_classes_json w1 = Some (all_stims obj)
     \<and> all_stims obj' = all_stims obj
     \<and> all_trials obj' = all_trials obj
     \<and> trials_by_image obj' = AList.delete ''all'' (trials_by_image obj)
     \<and> (\<forall>a. a \<noteq> ''all'' \<longrightarrow>
           map_of (trials_by_image obj') a = map_of (trials_by_image obj) a)
     \<and> ''all'' \<notin> set (keys (trials_by_image obj'))
     \<and> (\<exists>tb. fake_trials_json w1 = Some tb
           \<and> map_of tb ''all'' = Some (all_trials obj))"
proof -
  let ?d = "all_stims obj"
  from FakeStimTrials_init_Inr[OF assms(1)] obtain w0 where
    l: "load_all_stims g fake_dir w = Inr (?d, w0)"
    and t: "load_trials ?d w0 = Inr (obj, w1)" by auto
  from all_stims_persisted[OF l] load_trials_all_stims[OF t]
  have s: "fake_stimulus_classes_json w1 = Some ?d" by simp
  from trials_persisted[OF t] obtain tb where
    tb: "fake_trials_json w1 = Some tb"
    and al: "map_of tb ''all'' = Some (all_trials obj)"
    and de: "AList.delete ''all'' tb = AList.delete ''all'' (trials_by_image obj)" by auto
  let ?obj' = "\<lparr>all_stims = ?d, all_trials = all_trials obj,
                trials_by_image = AList.delete ''all'' (trials_by_image obj)\<rparr>"
  from tb al de have "load_trials ?d w1 = Inr (?obj', w1)"
    by (simp add: load_trials_cached)
  with s assms(2) have "FakeStimTrials_init stats' transform' g' fake_dir' w1 = Inr (?obj', w1)"
    by (simp add: FakeStimTrials_init_def load_all_stims_cached)
  moreover have "''all'' \<notin> set (keys (trials_by_image ?obj'))"
    using delete_notin_dom[of "''all''" "trials_by_image obj"] by (simp add: keys_def)
  ultimately show ?thesis using s tb al
    by (intro exI[of _ ?obj']) simp
qed

section \<open>Rebuilding the index from storage\<close>

text \<open>
  The loops of lines 86--99, 214--227 and 342--354 return when every listed path parses,
  and they store the index of section \<open>The index that a rebuild is to store\<close>. The loops over
  the anchors return for every index, so a constructor returns when its image-processing
  block and its index block do and the corpus file, if there is one, has the key \<^verbatim>\<open>'all'\<close>.
\<close>

lemma not_isl_iff: "\<not> isl x \<longleftrightarrow> (\<exists>y. x = Inr y)"
  by (cases x) auto

lemma add_image_Inr:
  "parse_image p = Inr (k, r) \<Longrightarrow>
   add_image d p = Inr (if shape r \<noteq> texture r then AList.update k r d else d)"
  by (simp add: add_image_def)

lemma create_shape_classes_total:
  "\<forall>p \<in> set ps. \<not> isl (parse_image p) \<Longrightarrow> \<exists>d'. create_shape_classes d ps = Inr d'"
proof (induction ps arbitrary: d)
  case Nil
  then show ?case by simp
next
  case (Cons p ps)
  then obtain k r where "parse_image p = Inr (k, r)" by (auto simp: not_isl_iff)
  with Cons show ?case by (simp add: add_image_Inr)
qed

lemma create_shape_classes_content:
  "create_shape_classes d0 ps = Inr d \<Longrightarrow>
   map_of d k =
     (case rev (filter (cue_conflict_named k) ps) of
        [] \<Rightarrow> map_of d0 k
      | p # qs \<Rightarrow> (case parse_image p of Inl e \<Rightarrow> None | Inr (name, r) \<Rightarrow> Some r))"
proof (induction ps arbitrary: d0)
  case Nil
  then show ?case by simp
next
  case (Cons p ps)
  then obtain k0 r0 where p: "parse_image p = Inr (k0, r0)"
    and rest: "create_shape_classes
        (if shape r0 \<noteq> texture r0 then AList.update k0 r0 d0 else d0) ps = Inr d"
    by (auto simp: add_image_def ebind_eq_Inr split: if_splits)
  have np: "cue_conflict_named k p \<longleftrightarrow> k0 = k \<and> shape r0 \<noteq> texture r0"
    using p by (simp add: cue_conflict_named_def)
  show ?case
  proof (cases "rev (filter (cue_conflict_named k) ps)")
    case Nil
    with Cons.IH[OF rest] p show ?thesis
      by (cases "k0 = k") (auto simp: np update_conv')
  next
    case (Cons q qs)
    with Cons.IH[OF rest] show ?thesis by simp
  qed
qed

lemma create_shape_classes_distinct:
  "create_shape_classes d0 ps = Inr d \<Longrightarrow> distinct (map fst d0) \<Longrightarrow> distinct (keys d)"
proof (induction ps arbitrary: d0)
  case Nil
  then show ?case by (simp add: keys_def)
next
  case (Cons p ps)
  then obtain d1 where a: "add_image d0 p = Inr d1"
    and rest: "create_shape_classes d1 ps = Inr d" by (auto simp: ebind_eq_Inr)
  from a Cons.prems(2) have "distinct (map fst d1)"
    by (auto simp: add_image_def ebind_eq_Inr distinct_update split: if_splits)
  with Cons.IH[OF rest] show ?case .
qed

lemma full_shape_classes:
  assumes "geirhos_shape_classes_json w = None"
    and "\<forall>p \<in> set (g (files w) ''stimuli-shape/style-transfer/*/*.png''). \<not> isl (parse_image p)"
  shows "\<exists>d. load_shape_classes g w = Inr (d, w\<lparr>geirhos_shape_classes_json := Some d\<rparr>)
           \<and> distinct (keys d)
           \<and> map_of d = expected_shape_classes (g (files w) ''stimuli-shape/style-transfer/*/*.png'')"
proof -
  let ?ps = "g (files w) ''stimuli-shape/style-transfer/*/*.png''"
  from create_shape_classes_total[OF assms(2)] obtain d where
    c: "create_shape_classes [] ?ps = Inr d" by blast
  from create_shape_classes_content[OF c]
  have "map_of d = expected_shape_classes ?ps"
    by (auto simp: expected_shape_classes_def fun_eq_iff split: list.splits)
  with c create_shape_classes_distinct[OF c] assms(1) show ?thesis
    by (simp add: load_shape_classes_fresh)
qed

lemma anchor_entry_total:
  "a \<in> set (keys d) \<Longrightarrow> \<exists>e. anchor_entry g fs sd d a = Inr e"
  using getitem_dict_key[of a d] by (auto simp: anchor_entry_def Let_def)

lemma generate_triplets_total:
  "set ks \<subseteq> set (keys d) \<Longrightarrow> \<exists>st'. generate_triplets g fs sd d ks st = Inr st'"
proof (induction ks arbitrary: st)
  case Nil
  then show ?case by simp
next
  case (Cons k ks)
  then obtain e where "anchor_entry g fs sd d k = Inr e"
    using anchor_entry_total[of k d g fs sd] by auto
  with Cons show ?case by simp
qed

lemma load_triplets_total:
  assumes "\<forall>tbi. geirhos_triplets_json w = Some tbi \<longrightarrow> ''all'' \<in> set (keys tbi)"
  shows "\<exists>obj w'. load_triplets g sd d w = Inr (obj, w')"
proof (cases "geirhos_triplets_json w")
  case None
  from generate_triplets_total[of "keys d" d g "files w" sd "([], [])"] obtain tbi al where
    "generate_triplets g (files w) sd d (keys d) ([], []) = Inr (tbi, al)" by fastforce
  with None show ?thesis by (simp add: load_triplets_fresh)
next
  case (Some tbi)
  with assms have "''all'' \<in> set (keys tbi)" by simp
  from getitem_dict_key[OF this] obtain a where "map_of tbi ''all'' = Some a" by auto
  with Some show ?thesis by (simp add: load_triplets_cached)
qed

lemma find_matches_total:
  "set ks \<subseteq> set (keys d) \<Longrightarrow> \<exists>ms. find_matches skip d ks = Inr ms"
proof (induction ks)
  case Nil
  then show ?case by simp
next
  case (Cons k ks)
  then obtain r ms where "getitem_dict d k = Inr r" "find_matches skip d ks = Inr ms"
    using getitem_dict_key[of k d] by auto
  then show ?case by simp
qed

lemma fake_anchor_entry_total:
  assumes "a \<in> set (keys d)"
  shows "\<exists>e. fake_anchor_entry d a = Inr e"
proof -
  from getitem_dict_key[OF assms] obtain r where r: "getitem_dict d a = Inr r" by auto
  obtain sm where sm: "find_matches (skip_shape_match a r) d (keys d) = Inr sm"
    using find_matches_total[of "keys d" d] by blast
  obtain tm where tm: "find_matches (skip_texture_match a r) d (keys d) = Inr tm"
    using find_matches_total[of "keys d" d] by blast
  obtain cm where cm: "find_matches (skip_color_match a r) d (keys d) = Inr cm"
    using find_matches_total[of "keys d" d] by blast
  from r sm tm cm show ?thesis by (simp add: fake_anchor_entry_def)
qed

lemma generate_trials_total:
  "set ks \<subseteq> set (keys d) \<Longrightarrow> \<exists>st'. generate_trials d ks st = Inr st'"
proof (induction ks arbitrary: st)
  case Nil
  then show ?case by simp
next
  case (Cons k ks)
  then obtain e where "fake_anchor_entry d k = Inr e"
    using fake_anchor_entry_total[of k d] by auto
  with Cons show ?case by simp
qed

lemma load_trials_total:
  assumes "\<forall>tbi. fake_trials_json w = Some tbi \<longrightarrow> ''all'' \<in> set (keys tbi)"
  shows "\<exists>obj w'. load_trials d w = Inr (obj, w')"
proof (cases "fake_trials_json w")
  case None
  from generate_trials_total[of "keys d" d "([], [])"] obtain tbi al where
    "generate_trials d (keys d) ([], []) = Inr (tbi, al)" by fastforce
  with None show ?thesis by (simp add: load_trials_fresh)
next
  case (Some tbi)
  with assms have "''all'' \<in> set (keys tbi)" by simp
  from getitem_dict_key[OF this] obtain a where "map_of tbi ''all'' = Some a" by auto
  with Some show ?thesis by (simp add: load_trials_cached)
qed

lemma GeirhosTriplets_init_returns:
  assumes "\<not> isl (image_processing stats transform (files w) ''stimuli-shape/style-transfer'' False)"
    and "load_shape_classes g w = Inr (d, w1)"
    and "\<forall>tbi. geirhos_triplets_json w = Some tbi \<longrightarrow> ''all'' \<in> set (keys tbi)"
  shows "\<exists>obj w'. GeirhosTriplets_init stats transform g shape_dir w = Inr (obj, w')
           \<and> shape_classes obj = d \<and> files w' = files w
           \<and> geirhos_shape_classes_json w' = Some d"
proof -
  from assms(2) have same: "geirhos_triplets_json w1 = geirhos_triplets_json w" "files w1 = files w"
    by (cases "geirhos_shape_classes_json w";
        auto simp: load_shape_classes_fresh load_shape_classes_cached ebind_eq_Inr)+
  with assms(3) load_triplets_total[of w1 g shape_dir d] obtain obj w' where
    t: "load_triplets g shape_dir d w1 = Inr (obj, w')" by auto
  from assms(1) obtain tr where
    "image_processing stats transform (files w) ''stimuli-shape/style-transfer'' False = Inr tr"
    by (auto simp: not_isl_iff)
  with assms(2) t have "GeirhosTriplets_init stats transform g shape_dir w = Inr (obj, w')"
    by (simp add: GeirhosTriplets_init_def)
  with load_triplets_shape_classes[OF t] load_triplets_world[OF t] same
    shape_classes_persisted[OF assms(2)]
  show ?thesis by auto
qed

lemma add_fake_image_marked:
  assumes "parse_fake_image p = Inr (img, specs)" "unassigned specs" "p \<in> set fs"
  shows "add_fake_image (d, fs) p = Inr (d, removeAll p fs)"
  using assms by (simp add: add_fake_image_def)

lemma add_fake_image_stored:
  assumes "parse_fake_image p = Inr (img, specs)" "\<not> unassigned specs" "3 \<le> length specs"
  shows "add_fake_image (d, fs) p =
     Inr (AList.update img
            \<lparr>f_shape = specs ! 0, f_texture = specs ! 1, f_color = specs ! 2, f_dir = p\<rparr> d, fs)"
  using assms by (cases specs) (auto simp: add_fake_image_def item_def)

lemma removeAll_filter_marked:
  assumes "marked p"
  shows "filter (\<lambda>f. \<not> (f \<in> set ps \<and> marked f)) (removeAll p fs) =
         filter (\<lambda>f. \<not> (f \<in> set (p # ps) \<and> marked f)) fs"
  using assms by (induction fs) auto

lemma create_all_stims_full:
  assumes "distinct ps" "\<forall>p \<in> set ps. three_fields p" "\<forall>p \<in> set ps. marked p \<longrightarrow> p \<in> set fs"
  shows "\<exists>d. create_all_stims (d0, fs) ps =
               Inr (d, filter (\<lambda>f. \<not> (f \<in> set ps \<and> marked f)) fs)
     \<and> (\<forall>k. map_of d k =
          (case rev (filter (assigned_named k) ps) of
             [] \<Rightarrow> map_of d0 k
           | p # qs \<Rightarrow>
               (case parse_fake_image p of
                  Inl e \<Rightarrow> None
                | Inr (img, specs) \<Rightarrow>
                    Some \<lparr>f_shape = specs ! 0, f_texture = specs ! 1, f_color = specs ! 2,
                          f_dir = p\<rparr>)))
     \<and> (distinct (map fst d0) \<longrightarrow> distinct (keys d))"
  using assms
proof (induction ps arbitrary: d0 fs)
  case Nil
  then show ?case by (simp add: keys_def)
next
  case (Cons p ps)
  from Cons.prems(2) obtain img specs where p: "parse_fake_image p = Inr (img, specs)"
    and f: "unassigned specs \<or> 3 \<le> length specs"
    by (auto simp: three_fields_def split: sum.splits)
  from Cons.prems(1) have dps: "distinct ps" and pn: "p \<notin> set ps" by auto
  from Cons.prems(2) have tf: "\<forall>q \<in> set ps. three_fields q" by simp
  show ?case
  proof (cases "unassigned specs")
    case True
    with p have m: "marked p" by (simp add: marked_def)
    with Cons.prems(3) have "p \<in> set fs" by simp
    from add_fake_image_marked[OF p True this]
    have step: "add_fake_image (d0, fs) p = Inr (d0, removeAll p fs)" .
    from Cons.prems(3) pn have "\<forall>q \<in> set ps. marked q \<longrightarrow> q \<in> set (removeAll p fs)" by auto
    from Cons.IH[OF dps tf this, of d0] obtain d where
      c: "create_all_stims (d0, removeAll p fs) ps =
            Inr (d, filter (\<lambda>f. \<not> (f \<in> set ps \<and> marked f)) (removeAll p fs))"
      and mp: "\<forall>k. map_of d k =
          (case rev (filter (assigned_named k) ps) of
             [] \<Rightarrow> map_of d0 k
           | p # qs \<Rightarrow>
               (case parse_fake_image p of
                  Inl e \<Rightarrow> None
                | Inr (img, specs) \<Rightarrow>
                    Some \<lparr>f_shape = specs ! 0, f_texture = specs ! 1, f_color = specs ! 2,
                          f_dir = p\<rparr>))"
      and di: "distinct (map fst d0) \<longrightarrow> distinct (keys d)" by blast
    have na: "\<not> assigned_named k p" for k using p True by (simp add: assigned_named_def)
    from step c have "create_all_stims (d0, fs) (p # ps) =
        Inr (d, filter (\<lambda>f. \<not> (f \<in> set (p # ps) \<and> marked f)) fs)"
      unfolding removeAll_filter_marked[OF m] by (simp del: set_simps)
    with mp di na show ?thesis by (intro exI[of _ d]) simp
  next
    case False
    with f have len: "3 \<le> length specs" by simp
    let ?r = "\<lparr>f_shape = specs ! 0, f_texture = specs ! 1, f_color = specs ! 2, f_dir = p\<rparr>"
    let ?d1 = "AList.update img ?r d0"
    from add_fake_image_stored[OF p False len]
    have step: "add_fake_image (d0, fs) p = Inr (?d1, fs)" .
    from p False have nm: "\<not> marked p" by (simp add: marked_def)
    from Cons.prems(3) have "\<forall>q \<in> set ps. marked q \<longrightarrow> q \<in> set fs" by simp
    from Cons.IH[OF dps tf this, of ?d1] obtain d where
      c: "create_all_stims (?d1, fs) ps =
            Inr (d, filter (\<lambda>f. \<not> (f \<in> set ps \<and> marked f)) fs)"
      and mp: "\<forall>k. map_of d k =
          (case rev (filter (assigned_named k) ps) of
             [] \<Rightarrow> map_of ?d1 k
           | p # qs \<Rightarrow>
               (case parse_fake_image p of
                  Inl e \<Rightarrow> None
                | Inr (img, specs) \<Rightarrow>
                    Some \<lparr>f_shape = specs ! 0, f_texture = specs ! 1, f_color = specs ! 2,
                          f_dir = p\<rparr>))"
      and di: "distinct (map fst ?d1) \<longrightarrow> distinct (keys d)" by blast
    have an: "assigned_named k p \<longleftrightarrow> img = k" for k
      using p False by (simp add: assigned_named_def)
    have fl: "filter (\<lambda>f. \<not> (f \<in> set ps \<and> marked f)) fs =
              filter (\<lambda>f. \<not> (f \<in> set (p # ps) \<and> marked f)) fs"
      using nm by (intro filter_cong) auto
    from step c have run0: "create_all_stims (d0, fs) (p # ps) =
        Inr (d, filter (\<lambda>f. \<not> (f \<in> set ps \<and> marked f)) fs)"
      by simp
    have run: "create_all_stims (d0, fs) (p # ps) =
        Inr (d, filter (\<lambda>f. \<not> (f \<in> set (p # ps) \<and> marked f)) fs)"
      unfolding fl[symmetric] by (rule run0)
    have content: "map_of d k =
          (case rev (filter (assigned_named k) (p # ps)) of
             [] \<Rightarrow> map_of d0 k
           | p # qs \<Rightarrow>
               (case parse_fake_image p of
                  Inl e \<Rightarrow> None
                | Inr (img, specs) \<Rightarrow>
                    Some \<lparr>f_shape = specs ! 0, f_texture = specs ! 1, f_color = specs ! 2,
                          f_dir = p\<rparr>))" for k
    proof (cases "rev (filter (assigned_named k) ps)")
      case Nil
      with mp[rule_format, of k] p show ?thesis
        by (cases "img = k") (auto simp: an update_conv')
    next
      case (Cons q qs)
      with mp[rule_format, of k] show ?thesis by simp
    qed
    have "distinct (map fst d0) \<longrightarrow> distinct (keys d)"
      using di by (simp add: distinct_update)
    with run content show ?thesis by (intro exI[of _ d]) simp
  qed
qed

lemma full_all_stims:
  assumes "fake_stimulus_classes_json w = None"
    and "distinct (g (files w) (fd @ ''/*.png''))"
    and "set (g (files w) (fd @ ''/*.png'')) \<subseteq> set (files w)"
    and "\<forall>p \<in> set (g (files w) (fd @ ''/*.png'')). three_fields p"
  shows "\<exists>d. load_all_stims g fd w =
               Inr (d, w\<lparr>files := filter (\<lambda>f. \<not> (f \<in> set (g (files w) (fd @ ''/*.png''))
                                                 \<and> marked f)) (files w),
                         fake_stimulus_classes_json := Some d\<rparr>)
           \<and> distinct (keys d)
           \<and> map_of d = expected_all_stims (g (files w) (fd @ ''/*.png''))"
proof -
  let ?ps = "g (files w) (fd @ ''/*.png'')"
  from assms(3) have "\<forall>p \<in> set ?ps. marked p \<longrightarrow> p \<in> set (files w)" by auto
  from create_all_stims_full[OF assms(2,4) this, of "[]"] obtain d where
    c: "create_all_stims ([], files w) ?ps =
          Inr (d, filter (\<lambda>f. \<not> (f \<in> set ?ps \<and> marked f)) (files w))"
    and mp: "\<forall>k. map_of d k =
          (case rev (filter (assigned_named k) ?ps) of
             [] \<Rightarrow> map_of [] k
           | p # qs \<Rightarrow>
               (case parse_fake_image p of
                  Inl e \<Rightarrow> None
                | Inr (img, specs) \<Rightarrow>
                    Some \<lparr>f_shape = specs ! 0, f_texture = specs ! 1, f_color = specs ! 2,
                          f_dir = p\<rparr>))"
    and di: "distinct (keys d)" by auto
  from mp have "map_of d = expected_all_stims ?ps"
    by (auto simp: expected_all_stims_def fun_eq_iff split: list.splits)
  with c di assms(1) show ?thesis
    by (simp add: load_all_stims_fresh)
qed

lemma FakeStimTrials_init_returns:
  assumes "\<not> isl (image_processing stats transform (files w) ''stimuli-shape/fake'' True)"
    and "load_all_stims g fake_dir w = Inr (d, w1)"
    and "\<forall>tbi. fake_trials_json w = Some tbi \<longrightarrow> ''all'' \<in> set (keys tbi)"
  shows "\<exists>obj w'. FakeStimTrials_init stats transform g fake_dir w = Inr (obj, w')
           \<and> all_stims obj = d \<and> files w' = files w1
           \<and> fake_stimulus_classes_json w' = Some d"
proof -
  from assms(2) have same: "fake_trials_json w1 = fake_trials_json w"
    by (cases "fake_stimulus_classes_json w")
       (auto simp: load_all_stims_fresh load_all_stims_cached ebind_eq_Inr)
  with assms(3) load_trials_total[of w1 d] obtain obj w' where
    t: "load_trials d w1 = Inr (obj, w')" by auto
  from assms(1) obtain tr where
    "image_processing stats transform (files w) ''stimuli-shape/fake'' True = Inr tr"
    by (auto simp: not_isl_iff)
  with assms(2) t have "FakeStimTrials_init stats transform g fake_dir w = Inr (obj, w')"
    by (simp add: FakeStimTrials_init_def)
  with load_trials_all_stims[OF t] all_stims_persisted[OF assms(2)]
  show ?thesis by auto
qed

lemma keys_update:
  "keys (AList.update k v al) = (if k \<in> set (keys al) then keys al else keys al @ [k])"
  by (induction al) (auto simp: keys_def)

lemma filter_first_new:
  "k \<notin> set ks \<Longrightarrow>
   (ks @ [k]) @ filter (\<lambda>y. y \<notin> set (ks @ [k])) xs =
   ks @ filter (\<lambda>y. y \<notin> set ks) (k # filter (\<lambda>y. y \<noteq> k) xs)"
  by (auto simp: conj_commute)

lemma filter_first_old:
  "k \<in> set ks \<Longrightarrow>
   ks @ filter (\<lambda>y. y \<notin> set ks) xs =
   ks @ filter (\<lambda>y. y \<notin> set ks) (k # filter (\<lambda>y. y \<noteq> k) xs)"
  by (auto intro: filter_cong)

lemma keys_after_update:
  "keys (AList.update k v al) @ filter (\<lambda>y. y \<notin> set (keys (AList.update k v al))) xs =
   keys al @ filter (\<lambda>y. y \<notin> set (keys al)) (k # filter (\<lambda>y. y \<noteq> k) xs)"
proof (cases "k \<in> set (keys al)")
  case True
  then show ?thesis unfolding keys_update using filter_first_old[OF True, of xs] by simp
next
  case False
  then show ?thesis unfolding keys_update using filter_first_new[OF False, of xs] by simp
qed

lemma create_shape_classes_keys:
  "create_shape_classes d0 ps = Inr d \<Longrightarrow>
   keys d = keys d0 @ filter (\<lambda>k. k \<notin> set (keys d0)) (first_occurrences (cue_conflict_names ps))"
proof (induction ps arbitrary: d0)
  case Nil
  then show ?case by (simp add: cue_conflict_names_def)
next
  case (Cons p ps)
  from Cons.prems obtain d1 where a: "add_image d0 p = Inr d1"
    and r1: "create_shape_classes d1 ps = Inr d"
    by (auto simp: ebind_eq_Inr)
  from a obtain k0 r0 where p: "parse_image p = Inr (k0, r0)"
    by (auto simp: add_image_def ebind_eq_Inr)
  from a r1 have rest:
    "create_shape_classes (if shape r0 \<noteq> texture r0 then AList.update k0 r0 d0 else d0) ps
       = Inr d"
    by (simp add: add_image_Inr[OF p])
  show ?case
  proof (cases "shape r0 \<noteq> texture r0")
    case True
    with p have n: "cue_conflict_names (p # ps) = k0 # cue_conflict_names ps"
      by (simp add: cue_conflict_names_def)
    from Cons.IH[OF rest] True show ?thesis
      unfolding n by (simp add: keys_after_update)
  next
    case False
    with p have n: "cue_conflict_names (p # ps) = cue_conflict_names ps"
      by (simp add: cue_conflict_names_def)
    from Cons.IH[OF rest] False show ?thesis unfolding n by simp
  qed
qed

lemma create_all_stims_keys:
  "create_all_stims (d0, fs) ps = Inr (d, fs') \<Longrightarrow>
   keys d = keys d0 @ filter (\<lambda>k. k \<notin> set (keys d0)) (first_occurrences (assigned_names ps))"
proof (induction ps arbitrary: d0 fs)
  case Nil
  then show ?case by (simp add: assigned_names_def)
next
  case (Cons p ps)
  then obtain d1 fs1 where a: "add_fake_image (d0, fs) p = Inr (d1, fs1)"
    and rest: "create_all_stims (d1, fs1) ps = Inr (d, fs')"
    by (auto simp: ebind_eq_Inr)
  from a show ?case
  proof (cases rule: add_fake_image_cases)
    case (removed img specs)
    then have n: "assigned_names (p # ps) = assigned_names ps"
      by (simp add: assigned_names_def)
    from Cons.IH[OF rest] removed show ?thesis unfolding n by simp
  next
    case (stored img specs s t c)
    then have n: "assigned_names (p # ps) = img # assigned_names ps"
      by (simp add: assigned_names_def)
    from Cons.IH[OF rest] stored show ?thesis
      unfolding n by (simp add: keys_after_update)
  qed
qed

lemma parse_image_returns:
  "\<not> isl (parse_image p) \<longleftrightarrow>
     3 < length (split_on CHR ''/'' p) \<and> 1 < length (split_on CHR ''-'' (split_on CHR ''/'' p ! 3))"
  by (auto simp: parse_image_def item_def Let_def ebind_def split: sum.splits)

lemma rebuilt_shape_classes:
  assumes "geirhos_shape_classes_json w = None"
    and "\<forall>p \<in> set (g (files w) ''stimuli-shape/style-transfer/*/*.png''). \<not> isl (parse_image p)"
  shows "\<exists>d. load_shape_classes g w = Inr (d, w\<lparr>geirhos_shape_classes_json := Some d\<rparr>)
           \<and> keys d = first_occurrences
               (cue_conflict_names (g (files w) ''stimuli-shape/style-transfer/*/*.png''))
           \<and> map_of d = expected_shape_classes (g (files w) ''stimuli-shape/style-transfer/*/*.png'')"
proof -
  let ?ps = "g (files w) ''stimuli-shape/style-transfer/*/*.png''"
  from full_shape_classes[where g = g and w = w, OF assms] obtain d where
    l: "load_shape_classes g w = Inr (d, w\<lparr>geirhos_shape_classes_json := Some d\<rparr>)"
    and m: "map_of d = expected_shape_classes ?ps" by blast
  from l assms(1) have "create_shape_classes [] ?ps = Inr d"
    by (auto simp: load_shape_classes_fresh ebind_eq_Inr)
  from create_shape_classes_keys[OF this]
  have "keys d = first_occurrences (cue_conflict_names ?ps)" by (simp add: keys_def)
  with l m show ?thesis by (intro exI[of _ d] conjI)
qed

lemma rebuilt_all_stims:
  assumes "fake_stimulus_classes_json w = None"
    and "distinct (g (files w) (fd @ ''/*.png''))"
    and "set (g (files w) (fd @ ''/*.png'')) \<subseteq> set (files w)"
    and "\<forall>p \<in> set (g (files w) (fd @ ''/*.png'')). three_fields p"
  shows "\<exists>d. load_all_stims g fd w =
               Inr (d, w\<lparr>files := filter (\<lambda>f. \<not> (f \<in> set (g (files w) (fd @ ''/*.png''))
                                                 \<and> marked f)) (files w),
                         fake_stimulus_classes_json := Some d\<rparr>)
           \<and> keys d = first_occurrences (assigned_names (g (files w) (fd @ ''/*.png'')))
           \<and> map_of d = expected_all_stims (g (files w) (fd @ ''/*.png''))"
proof -
  let ?ps = "g (files w) (fd @ ''/*.png'')"
  let ?fs = "filter (\<lambda>f. \<not> (f \<in> set ?ps \<and> marked f)) (files w)"
  from full_all_stims[where g = g and w = w and fd = fd, OF assms] obtain d where
    l: "load_all_stims g fd w = Inr (d, w\<lparr>files := ?fs, fake_stimulus_classes_json := Some d\<rparr>)"
    and m: "map_of d = expected_all_stims ?ps" by blast
  from l assms(1) obtain fs' where "create_all_stims ([], files w) ?ps = Inr (d, fs')"
    by (auto simp: load_all_stims_fresh ebind_eq_Inr)
  from create_all_stims_keys[OF this]
  have "keys d = first_occurrences (assigned_names ?ps)" by (simp add: keys_def)
  with l m show ?thesis by (intro exI[of _ d] conjI)
qed

lemma distinct_first_occurrences: "distinct (first_occurrences xs)"
  by (induction xs) auto

lemma set_first_occurrences: "set (first_occurrences xs) = set xs"
  by (induction xs) auto

lemma anchor_entry_triplets:
  "anchor_entry g fs sd d a = Inr e \<Longrightarrow> triplets e = candidate_triplets a e"
  by (auto simp: anchor_entry_def ebind_eq_Inr candidate_triplets_def make_triplets_def Let_def)

text \<open>An exception of the image-processing block is the constructor's.\<close>

lemma image_processing_raises:
  assumes "image_processing stats transform (files w) ''stimuli-shape/style-transfer'' False
             = Inl e"
  shows "GeirhosStyleTransferDataset_init stats transform g w = Inl e"
    and "GeirhosTriplets_init stats transform g sd w = Inl e"
  using assms by (simp_all add: GeirhosStyleTransferDataset_init_def GeirhosTriplets_init_def)

lemma fake_image_processing_raises:
  assumes "image_processing stats transform (files w) ''stimuli-shape/fake'' True = Inl e"
  shows "FakeStimTrials_init stats transform g fd w = Inl e"
  using assms by (simp add: FakeStimTrials_init_def)

text \<open>
  \<^verbatim>\<open>GeirhosStyleTransferDataset.__getitem__\<close> indexes the sorted keys: the list it indexes
  depends on the set of keys only, not on their insertion order.
\<close>

lemma sorted_keys_order_independent:
  assumes "set (keys d) = set (keys d')" "distinct (keys d)" "distinct (keys d')"
  shows "sort (keys d) = sort (keys d')"
proof (rule sorted_distinct_set_unique)
  show "set (sort (keys d)) = set (sort (keys d'))" using assms(1) by simp
qed (use assms in simp_all)

section \<open>The claims\<close>

text \<open>
  Claim C4. Every stimulus of a freshly built style-transfer index has a shape different
  from its texture, in \<^verbatim>\<open>GeirhosStyleTransferDataset\<close> and in \<^verbatim>\<open>GeirhosTriplets\<close>. An image
  whose parsed shape equals its parsed texture is left out without an error: the build
  goes on as if the path had not been listed, and no entry of the index records its path.
\<close>

theorem style_transfer_index_cue_conflict:
  assumes "geirhos_shape_classes_json w = None"
  shows "(\<forall>d w'. GeirhosStyleTransferDataset_init stats transform g w = Inr (d, w') \<longrightarrow>
            (\<forall>(k, r) \<in> set d. shape r \<noteq> texture r))
       \<and> (\<forall>obj w'. GeirhosTriplets_init stats transform g shape_dir w = Inr (obj, w') \<longrightarrow>
            (\<forall>(k, r) \<in> set (shape_classes obj). shape r \<noteq> texture r))
       \<and> (\<forall>p k r d ps qs. parse_image p = Inr (k, r) \<and> shape r = texture r \<longrightarrow>
            create_shape_classes d (ps @ p # qs) = create_shape_classes d (ps @ qs))
       \<and> (\<forall>p k r d w'. parse_image p = Inr (k, r) \<and> shape r = texture r \<and>
            GeirhosStyleTransferDataset_init stats transform g w = Inr (d, w') \<longrightarrow>
            p \<notin> dir ` snd ` set d)"
proof (intro conjI allI impI)
  fix d w' assume "GeirhosStyleTransferDataset_init stats transform g w = Inr (d, w')"
  then have "load_shape_classes g w = Inr (d, w')"
    by (auto simp: GeirhosStyleTransferDataset_init_def ebind_eq_Inr)
  with assms have "cue_conflict_index d"
    by (rule load_shape_classes_cue_conflict)
  then show "\<forall>(k, r) \<in> set d. shape r \<noteq> texture r"
    by (auto simp: cue_conflict_index_def)
next
  fix obj w' assume "GeirhosTriplets_init stats transform g shape_dir w = Inr (obj, w')"
  then obtain d w1 where l: "load_shape_classes g w = Inr (d, w1)"
    and t: "load_triplets g shape_dir d w1 = Inr (obj, w')"
    by (auto simp: GeirhosTriplets_init_def ebind_eq_Inr)
  from assms l have "cue_conflict_index d" by (rule load_shape_classes_cue_conflict)
  with load_triplets_shape_classes[OF t]
  show "\<forall>(k, r) \<in> set (shape_classes obj). shape r \<noteq> texture r"
    by (auto simp: cue_conflict_index_def)
next
  fix p k r d ps qs assume "parse_image p = Inr (k, r) \<and> shape r = texture r"
  then show "create_shape_classes d (ps @ p # qs) = create_shape_classes d (ps @ qs)"
    by (simp add: create_shape_classes_skip)
next
  fix p k r d w'
  assume a: "parse_image p = Inr (k, r) \<and> shape r = texture r \<and>
    GeirhosStyleTransferDataset_init stats transform g w = Inr (d, w')"
  then have "load_shape_classes g w = Inr (d, w')"
    by (auto simp: GeirhosStyleTransferDataset_init_def ebind_eq_Inr)
  with assms have c: "cue_conflict_index d"
    by (rule load_shape_classes_cue_conflict)
  show "p \<notin> dir ` snd ` set d"
  proof
    assume "p \<in> dir ` snd ` set d"
    then obtain k' r' where in_d: "(k', r') \<in> set d" and "dir r' = p" by auto
    with c have "parse_image p = Inr (k', r')" "shape r' \<noteq> texture r'"
      by (auto simp: cue_conflict_index_def)
    with a show False by simp
  qed
qed

theorem style_transfer_index_cue_conflict_witness:
  "geirhos_shape_classes_json ex_style_world = None
   \<and> (\<exists>d w'. GeirhosStyleTransferDataset_init readable_stats (None :: unit option)
       glob ex_style_world = Inr (d, w')
        \<and> map fst d = [''cat4-truck3.png'', ''cat4-boat2.png'', ''dog3-truck3.png'']
        \<and> (\<forall>(k, r) \<in> set d. shape r \<noteq> texture r)
        \<and> ''stimuli-shape/style-transfer/cat/cat4-cat2.png'' \<notin> dir ` snd ` set d)
   \<and> (\<exists>obj w'. GeirhosTriplets_init readable_stats (None :: unit option) glob
       ''stimuli-shape/style-transfer'' ex_style_world = Inr (obj, w')
        \<and> (\<forall>(k, r) \<in> set (shape_classes obj). shape r \<noteq> texture r))
   \<and> (\<exists>k r. parse_image ''stimuli-shape/style-transfer/cat/cat4-cat2.png'' = Inr (k, r)
        \<and> shape r = texture r)"
proof -
  have h: "geirhos_shape_classes_json ex_style_world = None"
    by (simp add: ex_style_world_def)
  have "\<not> isl (parse_image ''stimuli-shape/style-transfer/cat/cat4-cat2.png'')" by code_simp
  then obtain k0 r0 where p: "parse_image ''stimuli-shape/style-transfer/cat/cat4-cat2.png'' = Inr (k0, r0)"
    by (cases "parse_image ''stimuli-shape/style-transfer/cat/cat4-cat2.png''") auto
  have "shape (snd (projr (parse_image ''stimuli-shape/style-transfer/cat/cat4-cat2.png'')))
      = texture (snd (projr (parse_image ''stimuli-shape/style-transfer/cat/cat4-cat2.png'')))"
    by code_simp
  with p have p': "shape r0 = texture r0" by simp
  have "\<not> isl (GeirhosStyleTransferDataset_init readable_stats (None :: unit option) glob
      ex_style_world)" by code_simp
  then obtain d w1 where i1: "GeirhosStyleTransferDataset_init readable_stats
      (None :: unit option) glob ex_style_world = Inr (d, w1)"
    by (cases "GeirhosStyleTransferDataset_init readable_stats (None :: unit option) glob
        ex_style_world") auto
  have "map fst (fst (projr (GeirhosStyleTransferDataset_init readable_stats
      (None :: unit option) glob ex_style_world))) =
     [''cat4-truck3.png'', ''cat4-boat2.png'', ''dog3-truck3.png'']" by code_simp
  with i1 have k1: "map fst d = [''cat4-truck3.png'', ''cat4-boat2.png'', ''dog3-truck3.png'']"
    by simp
  have "\<not> isl (GeirhosTriplets_init readable_stats (None :: unit option) glob
      ''stimuli-shape/style-transfer'' ex_style_world)"
    by code_simp
  then obtain obj w2 where
    i2: "GeirhosTriplets_init readable_stats (None :: unit option) glob
        ''stimuli-shape/style-transfer'' ex_style_world = Inr (obj, w2)"
    by (cases "GeirhosTriplets_init readable_stats (None :: unit option) glob
        ''stimuli-shape/style-transfer'' ex_style_world") auto
  note t = style_transfer_index_cue_conflict[OF h, where stats = readable_stats
      and transform = "None :: unit option" and g = glob
      and shape_dir = "''stimuli-shape/style-transfer''"]
  from t i1 have c1: "\<forall>(k, r) \<in> set d. shape r \<noteq> texture r" by blast
  from t i2 have c2: "\<forall>(k, r) \<in> set (shape_classes obj). shape r \<noteq> texture r" by blast
  from t p p' i1 have c3: "''stimuli-shape/style-transfer/cat/cat4-cat2.png'' \<notin> dir ` snd ` set d"
    by blast
  have e1: "\<exists>d w'. GeirhosStyleTransferDataset_init readable_stats
      (None :: unit option) glob ex_style_world = Inr (d, w')
        \<and> map fst d = [''cat4-truck3.png'', ''cat4-boat2.png'', ''dog3-truck3.png'']
        \<and> (\<forall>(k, r) \<in> set d. shape r \<noteq> texture r)
        \<and> ''stimuli-shape/style-transfer/cat/cat4-cat2.png'' \<notin> dir ` snd ` set d"
    using i1 k1 c1 c3 by (intro exI[of _ d] exI[of _ w1] conjI)
  have e2: "\<exists>obj w'. GeirhosTriplets_init readable_stats (None :: unit option) glob
      ''stimuli-shape/style-transfer'' ex_style_world = Inr (obj, w')
        \<and> (\<forall>(k, r) \<in> set (shape_classes obj). shape r \<noteq> texture r)"
    using i2 c2 by (intro exI[of _ obj] exI[of _ w2] conjI)
  have e3: "\<exists>k r. parse_image ''stimuli-shape/style-transfer/cat/cat4-cat2.png'' = Inr (k, r)
        \<and> shape r = texture r"
    using p p' by (intro exI[of _ k0] exI[of _ r0] conjI)
  from h e1 e2 e3 show ?thesis by (intro conjI)
qed


text \<open>
  Claim C1. The code at a storage of three cue-conflict images of the shape directory
  \<^verbatim>\<open>cat\<close>: for the anchor \<^verbatim>\<open>cat4-truck3.png\<close> the loop at lines 254--257 keeps the shape
  match \<^verbatim>\<open>cat4-truck5.png\<close>, whose texture \<^verbatim>\<open>truck\<close> is the anchor's, and the loop at lines
  259--263 keeps the texture match \<^verbatim>\<open>cat7-truck3.png\<close>, whose shape \<^verbatim>\<open>cat\<close> is the anchor's.
  Neither loop compares the attribute that is not matched; the three loops of
  \<^verbatim>\<open>FakeStimTrials.__init__\<close> skip such candidates (lines 388, 397 and 406).
\<close>

theorem style_transfer_match_same_attribute:
  "(case GeirhosTriplets_init readable_stats (None :: unit option) glob
      ''stimuli-shape/style-transfer'' ex_same_attribute_world of
      Inl err \<Rightarrow> False
    | Inr (obj, w') \<Rightarrow>
        anchor_of (triplets_by_image obj) ''cat4-truck3.png'' =
          Some \<lparr>shape_matches = [''cat4-truck5.png''], texture_matches = [''cat7-truck3.png''],
            triplets = [[''cat4-truck3.png'', ''cat4-truck5.png'', ''cat7-truck3.png'']]\<rparr>
        \<and> map_option texture (map_of (shape_classes obj) ''cat4-truck3.png'') = Some ''truck''
        \<and> map_option texture (map_of (shape_classes obj) ''cat4-truck5.png'') = Some ''truck''
        \<and> map_option shape (map_of (shape_classes obj) ''cat4-truck3.png'') = Some ''cat''
        \<and> map_option shape (map_of (shape_classes obj) ''cat7-truck3.png'') = Some ''cat'')"
  by code_simp

text \<open>
  Claim C2. The code at the storage of \<^verbatim>\<open>cat1-truck3.png\<close> and \<^verbatim>\<open>cat10-truck3.png\<close>: the
  pattern \<^verbatim>\<open>cat1*.png\<close> of the anchor \<^verbatim>\<open>cat1-truck3.png\<close> also finds the exemplar \<^verbatim>\<open>cat10\<close>,
  which is its texture match as well, and the triplet names that image twice.
\<close>

theorem style_transfer_triplet_repeats_match:
  "(case GeirhosTriplets_init readable_stats (None :: unit option) glob
      ''stimuli-shape/style-transfer'' ex_prefix_world of
      Inl err \<Rightarrow> False
    | Inr (obj, w') \<Rightarrow>
        anchor_of (triplets_by_image obj) ''cat1-truck3.png'' =
          Some \<lparr>shape_matches = [''cat10-truck3.png''], texture_matches = [''cat10-truck3.png''],
            triplets = [[''cat1-truck3.png'', ''cat10-truck3.png'', ''cat10-truck3.png'']]\<rparr>
        \<and> all_triplets obj =
            AllTuples [[''cat1-truck3.png'', ''cat10-truck3.png'', ''cat10-truck3.png'']])"
  by code_simp

text \<open>
  Claim C3. The code at two listings of the same fake storage: \<^verbatim>\<open>FakeStimTrials.getitem\<close>
  indexes the keys in insertion order, so position 0 is a different stimulus in each.
\<close>

theorem fake_getitem_follows_listing_order:
  "set (files ex_fake_listing_1) = set (files ex_fake_listing_2)
   \<and> (case FakeStimTrials_init readable_stats (None :: unit option) glob
       ''stimuli-shape/fake'' ex_fake_listing_1 of
        Inl err \<Rightarrow> False
      | Inr (obj, w') \<Rightarrow>
          FakeStimTrials_getitem obj 0 = Inr (''stimuli-shape/fake/sq_red_blue.png'', ''sq_red_blue.png''))
   \<and> (case FakeStimTrials_init readable_stats (None :: unit option) glob
       ''stimuli-shape/fake'' ex_fake_listing_2 of
        Inl err \<Rightarrow> False
      | Inr (obj, w') \<Rightarrow>
          FakeStimTrials_getitem obj 0 = Inr (''stimuli-shape/fake/tri_blue_red.png'', ''tri_blue_red.png''))"
  by code_simp

text \<open>
  Claim C5. When the fake index is built, a listed image whose fields hold the marker
  \<^verbatim>\<open>x\<close> or \<^verbatim>\<open>X\<close> is not a key of the index and its file is gone from storage when the
  constructor returns; and no shape, texture or color of an indexed stimulus is the marker.
\<close>

theorem fake_index_excludes_unassigned:
  assumes "fake_stimulus_classes_json w = None"
    and "FakeStimTrials_init stats transform g fake_dir w = Inr (obj, w')"
  shows "(\<forall>p \<in> set (g (files w) (fake_dir @ ''/*.png'')). \<forall>img specs.
            parse_fake_image p = Inr (img, specs) \<and> unassigned specs \<longrightarrow>
              img \<notin> set (keys (all_stims obj)) \<and> p \<notin> set (files w'))
       \<and> (\<forall>(k, r) \<in> set (all_stims obj). \<forall>m \<in> {''x'', ''X''}.
            f_shape r \<noteq> m \<and> f_texture r \<noteq> m \<and> f_color r \<noteq> m)"
proof -
  from FakeStimTrials_init_Inr[OF assms(2)] obtain w1 where
    l: "load_all_stims g fake_dir w = Inr (all_stims obj, w1)" and f: "files w' = files w1"
    by auto
  from fresh_all_stims[OF assms(1) l] have
    c: "create_all_stims ([], files w) (g (files w) (fake_dir @ ''/*.png''))
          = Inr (all_stims obj, files w')"
    using f by auto
  have ok: "assigned_index (all_stims obj)"
    using create_all_stims_ok[OF c] by (simp add: assigned_index_def)
  have second: "\<forall>(k, r) \<in> set (all_stims obj). \<forall>m \<in> {''x'', ''X''}.
            f_shape r \<noteq> m \<and> f_texture r \<noteq> m \<and> f_color r \<noteq> m"
    using ok by (auto simp: assigned_index_def unassigned_def)
  have first: "\<forall>p \<in> set (g (files w) (fake_dir @ ''/*.png'')). \<forall>img specs.
            parse_fake_image p = Inr (img, specs) \<and> unassigned specs \<longrightarrow>
              img \<notin> set (keys (all_stims obj)) \<and> p \<notin> set (files w')"
  proof (intro conjI ballI allI impI)
    fix p img specs
    assume p: "p \<in> set (g (files w) (fake_dir @ ''/*.png''))"
      and q: "parse_fake_image p = Inr (img, specs) \<and> unassigned specs"
    from create_all_stims_removed[OF c p] q show "p \<notin> set (files w')" by simp
    show "img \<notin> set (keys (all_stims obj))"
    proof
      assume "img \<in> set (keys (all_stims obj))"
      then obtain r where "(img, r) \<in> set (all_stims obj)" by (auto simp: keys_def)
      with ok have "\<not> unassigned (split_on CHR ''_'' (replace ''.png'' [] img))"
        by (auto simp: assigned_index_def)
      with q show False by (auto dest: parse_fake_image_specs)
    qed
  qed
  from first second show ?thesis by (rule conjI)
qed

theorem fake_index_excludes_unassigned_witness:
  "fake_stimulus_classes_json ex_fake_world = None
   \<and> (\<exists>obj w'. FakeStimTrials_init readable_stats (None :: unit option) glob
       ''stimuli-shape/fake'' ex_fake_world = Inr (obj, w')
        \<and> keys (all_stims obj) =
            [''sq_red_blue.png'', ''sq_blue_red.png'', ''tri_red_green.png'', ''tri_blue_blue.png'']
        \<and> files w' =
            [''stimuli-shape/fake/sq_red_blue.png'', ''stimuli-shape/fake/sq_blue_red.png'',
             ''stimuli-shape/fake/tri_red_green.png'', ''stimuli-shape/fake/tri_blue_blue.png'']
        \<and> (\<forall>p \<in> set (glob (files ex_fake_world) (''stimuli-shape/fake'' @ ''/*.png'')).
              \<forall>img specs. parse_fake_image p = Inr (img, specs) \<and> unassigned specs \<longrightarrow>
                img \<notin> set (keys (all_stims obj)) \<and> p \<notin> set (files w'))
        \<and> (\<forall>(k, r) \<in> set (all_stims obj). \<forall>m \<in> {''x'', ''X''}.
              f_shape r \<noteq> m \<and> f_texture r \<noteq> m \<and> f_color r \<noteq> m))
   \<and> ''stimuli-shape/fake/tri_X_red.png''
        \<in> set (glob (files ex_fake_world) (''stimuli-shape/fake'' @ ''/*.png''))
   \<and> parse_fake_image ''stimuli-shape/fake/tri_X_red.png'' =
        Inr (''tri_X_red.png'', [''tri'', ''X'', ''red''])
   \<and> unassigned [''tri'', ''X'', ''red'']"
proof -
  have h: "fake_stimulus_classes_json ex_fake_world = None"
    by (simp add: ex_fake_world_def)
  have "\<not> isl (FakeStimTrials_init readable_stats (None :: unit option) glob
      ''stimuli-shape/fake'' ex_fake_world)"
    by code_simp
  then obtain obj w1 where
    i: "FakeStimTrials_init readable_stats (None :: unit option) glob ''stimuli-shape/fake''
        ex_fake_world = Inr (obj, w1)"
    by (cases "FakeStimTrials_init readable_stats (None :: unit option) glob
        ''stimuli-shape/fake'' ex_fake_world") auto
  have "keys (all_stims (fst (projr (FakeStimTrials_init readable_stats (None :: unit option)
      glob ''stimuli-shape/fake''
      ex_fake_world)))) =
      [''sq_red_blue.png'', ''sq_blue_red.png'', ''tri_red_green.png'', ''tri_blue_blue.png'']"
    by code_simp
  with i have k: "keys (all_stims obj) =
      [''sq_red_blue.png'', ''sq_blue_red.png'', ''tri_red_green.png'', ''tri_blue_blue.png'']"
    by simp
  have "files (snd (projr (FakeStimTrials_init readable_stats (None :: unit option) glob
      ''stimuli-shape/fake'' ex_fake_world))) =
      [''stimuli-shape/fake/sq_red_blue.png'', ''stimuli-shape/fake/sq_blue_red.png'',
       ''stimuli-shape/fake/tri_red_green.png'', ''stimuli-shape/fake/tri_blue_blue.png'']"
    by code_simp
  with i have f: "files w1 =
      [''stimuli-shape/fake/sq_red_blue.png'', ''stimuli-shape/fake/sq_blue_red.png'',
       ''stimuli-shape/fake/tri_red_green.png'', ''stimuli-shape/fake/tri_blue_blue.png'']"
    by simp
  note c = fake_index_excludes_unassigned[OF h i]
  have e: "\<exists>obj w'. FakeStimTrials_init readable_stats (None :: unit option) glob
      ''stimuli-shape/fake'' ex_fake_world = Inr (obj, w')
        \<and> keys (all_stims obj) =
            [''sq_red_blue.png'', ''sq_blue_red.png'', ''tri_red_green.png'', ''tri_blue_blue.png'']
        \<and> files w' =
            [''stimuli-shape/fake/sq_red_blue.png'', ''stimuli-shape/fake/sq_blue_red.png'',
             ''stimuli-shape/fake/tri_red_green.png'', ''stimuli-shape/fake/tri_blue_blue.png'']
        \<and> (\<forall>p \<in> set (glob (files ex_fake_world) (''stimuli-shape/fake'' @ ''/*.png'')).
              \<forall>img specs. parse_fake_image p = Inr (img, specs) \<and> unassigned specs \<longrightarrow>
                img \<notin> set (keys (all_stims obj)) \<and> p \<notin> set (files w'))
        \<and> (\<forall>(k, r) \<in> set (all_stims obj). \<forall>m \<in> {''x'', ''X''}.
              f_shape r \<noteq> m \<and> f_texture r \<noteq> m \<and> f_color r \<noteq> m)"
    using i k f c[THEN conjunct1] c[THEN conjunct2]
    by (intro exI[of _ obj] exI[of _ w1] conjI)
  have m: "''stimuli-shape/fake/tri_X_red.png''
        \<in> set (glob (files ex_fake_world) (''stimuli-shape/fake'' @ ''/*.png''))"
    by code_simp
  have p: "parse_fake_image ''stimuli-shape/fake/tri_X_red.png'' =
        Inr (''tri_X_red.png'', [''tri'', ''X'', ''red''])"
    by code_simp
  have u: "unassigned [''tri'', ''X'', ''red'']"
    by code_simp
  from h e m p u show ?thesis by (intro conjI)
qed

text \<open>
  Claim C6. In the freshly built fake corpus, every trial in the trial list of an anchor
  \<open>a\<close> is a list \<open>[a, s, t, c]\<close> of four pairwise distinct names; so is every trial of the
  flattened list.
\<close>

theorem fake_trials_pairwise_distinct:
  assumes "fake_trials_json w = None"
    and "FakeStimTrials_init stats transform g fake_dir w = Inr (obj, w')"
  shows "(\<forall>(a, e) \<in> set (anchors (trials_by_image obj)). \<forall>t \<in> set (trials e).
            \<exists>s tm c. t = [a, s, tm, c] \<and> distinct [a, s, tm, c])
       \<and> (\<exists>ts. all_trials obj = AllTuples ts
            \<and> (\<forall>t \<in> set ts. \<exists>a s tm c. t = [a, s, tm, c] \<and> distinct [a, s, tm, c]))"
proof -
  from FakeStimTrials_init_Inr[OF assms(2)] assms(1) obtain w1 where
    t: "load_trials (all_stims obj) w1 = Inr (obj, w')"
    and n: "fake_trials_json w1 = None" by auto
  have entry: "\<exists>s tm c. t = [a, s, tm, c] \<and> distinct [a, s, tm, c]"
    if "fake_anchor_entry (all_stims obj) a = Inr e" "t \<in> set (trials e)" for a e t
  proof -
    from fake_anchor_entry_trials[OF that(1)] that(2)
    have "t \<in> set (candidate_trials a e)" "distinct t" by auto
    with candidate_trials_shape[of t a e] show ?thesis by auto
  qed
  have first: "\<forall>(a, e) \<in> set (anchors (trials_by_image obj)). \<forall>t \<in> set (trials e).
            \<exists>s tm c. t = [a, s, tm, c] \<and> distinct [a, s, tm, c]"
    using fresh_trials_anchor[OF n t] entry by blast
  from fresh_trials[OF n t] obtain tbi ts where
    gen: "generate_trials (all_stims obj) (keys (all_stims obj)) ([], []) = Inr (tbi, ts)"
    and al: "all_trials obj = AllTuples ts"
    by auto
  have "\<forall>t \<in> set ts. \<exists>a s tm c. t = [a, s, tm, c] \<and> distinct [a, s, tm, c]"
  proof
    fix t assume "t \<in> set ts"
    with generate_trials_all[OF gen, of t] obtain k e where
      "fake_anchor_entry (all_stims obj) k = Inr e" "t \<in> set (trials e)" by auto
    from entry[OF this] show "\<exists>a s tm c. t = [a, s, tm, c] \<and> distinct [a, s, tm, c]" by blast
  qed
  with al have second: "\<exists>ts. all_trials obj = AllTuples ts
      \<and> (\<forall>t \<in> set ts. \<exists>a s tm c. t = [a, s, tm, c] \<and> distinct [a, s, tm, c])"
    by (intro exI[of _ ts] conjI)
  from first second show ?thesis by (rule conjI)
qed

theorem fake_trials_pairwise_distinct_witness:
  "fake_trials_json ex_fake_world = None
   \<and> (\<exists>obj w'. FakeStimTrials_init readable_stats (None :: unit option) glob
       ''stimuli-shape/fake'' ex_fake_world = Inr (obj, w')
        \<and> all_trials obj = AllTuples
            [[''sq_red_blue.png'', ''sq_blue_red.png'', ''tri_red_green.png'', ''tri_blue_blue.png''],
             [''tri_blue_blue.png'', ''tri_red_green.png'', ''sq_blue_red.png'', ''sq_red_blue.png'']]
        \<and> (\<forall>(a, e) \<in> set (anchors (trials_by_image obj)). \<forall>t \<in> set (trials e).
              \<exists>s tm c. t = [a, s, tm, c] \<and> distinct [a, s, tm, c])
        \<and> (\<exists>ts. all_trials obj = AllTuples ts
              \<and> (\<forall>t \<in> set ts. \<exists>a s tm c. t = [a, s, tm, c] \<and> distinct [a, s, tm, c])))"
proof -
  have h: "fake_trials_json ex_fake_world = None"
    by (simp add: ex_fake_world_def)
  have "\<not> isl (FakeStimTrials_init readable_stats (None :: unit option) glob
      ''stimuli-shape/fake'' ex_fake_world)"
    by code_simp
  then obtain obj w1 where
    i: "FakeStimTrials_init readable_stats (None :: unit option) glob ''stimuli-shape/fake''
        ex_fake_world = Inr (obj, w1)"
    by (cases "FakeStimTrials_init readable_stats (None :: unit option) glob
        ''stimuli-shape/fake'' ex_fake_world") auto
  have "all_trials (fst (projr (FakeStimTrials_init readable_stats (None :: unit option) glob
      ''stimuli-shape/fake'' ex_fake_world))) = AllTuples
      [[''sq_red_blue.png'', ''sq_blue_red.png'', ''tri_red_green.png'', ''tri_blue_blue.png''],
       [''tri_blue_blue.png'', ''tri_red_green.png'', ''sq_blue_red.png'', ''sq_red_blue.png'']]"
    by code_simp
  with i have a: "all_trials obj = AllTuples
      [[''sq_red_blue.png'', ''sq_blue_red.png'', ''tri_red_green.png'', ''tri_blue_blue.png''],
       [''tri_blue_blue.png'', ''tri_red_green.png'', ''sq_blue_red.png'', ''sq_red_blue.png'']]"
    by simp
  note c = fake_trials_pairwise_distinct[OF h i]
  have "\<exists>obj w'. FakeStimTrials_init readable_stats (None :: unit option) glob
      ''stimuli-shape/fake'' ex_fake_world = Inr (obj, w')
        \<and> all_trials obj = AllTuples
            [[''sq_red_blue.png'', ''sq_blue_red.png'', ''tri_red_green.png'', ''tri_blue_blue.png''],
             [''tri_blue_blue.png'', ''tri_red_green.png'', ''sq_blue_red.png'', ''sq_red_blue.png'']]
        \<and> (\<forall>(a, e) \<in> set (anchors (trials_by_image obj)). \<forall>t \<in> set (trials e).
              \<exists>s tm c. t = [a, s, tm, c] \<and> distinct [a, s, tm, c])
        \<and> (\<exists>ts. all_trials obj = AllTuples ts
              \<and> (\<forall>t \<in> set ts. \<exists>a s tm c. t = [a, s, tm, c] \<and> distinct [a, s, tm, c]))"
    using i a c[THEN conjunct1] c[THEN conjunct2]
    by (intro exI[of _ obj] exI[of _ w1] conjI)
  with h show ?thesis by (intro conjI)
qed

text \<open>
  Claim C10. In the freshly built fake corpus the three match relations are symmetric: for
  stimuli \<open>a\<close> and \<open>b\<close> of the index (neither named by the reserved key), \<open>b\<close> is in the
  shape-match list of \<open>a\<close> exactly when \<open>a\<close> is in the shape-match list of \<open>b\<close>, and
  likewise for the texture-match and color-match lists.
\<close>

theorem fake_matches_symmetric:
  assumes "fake_trials_json w = None"
    and "FakeStimTrials_init stats transform g fake_dir w = Inr (obj, w')"
    and "a \<in> set (keys (all_stims obj))" and "b \<in> set (keys (all_stims obj))"
    and "a \<noteq> ''all''" and "b \<noteq> ''all''"
  shows "\<exists>ea eb. anchor_of (trials_by_image obj) a = Some ea
           \<and> anchor_of (trials_by_image obj) b = Some eb
           \<and> (b \<in> set (f_shape_matches ea) \<longleftrightarrow> a \<in> set (f_shape_matches eb))
           \<and> (b \<in> set (f_texture_matches ea) \<longleftrightarrow> a \<in> set (f_texture_matches eb))
           \<and> (b \<in> set (f_color_matches ea) \<longleftrightarrow> a \<in> set (f_color_matches eb))"
proof -
  let ?d = "all_stims obj"
  from FakeStimTrials_init_Inr[OF assms(2)] assms(1) obtain w1 where
    t: "load_trials ?d w1 = Inr (obj, w')"
    and n: "fake_trials_json w1 = None" by auto
  from fresh_trials[OF n t] obtain tbi ts where
    gen: "generate_trials ?d (keys ?d) ([], []) = Inr (tbi, ts)"
    and obj: "trials_by_image obj = AList.update ''all'' (AllTuples ts) tbi"
    by auto
  from generate_trials_lookup[OF gen, of a] assms(3) obtain ea where
    ea: "fake_anchor_entry ?d a = Inr ea" and la: "map_of tbi a = Some (PerAnchor ea)" by auto
  from generate_trials_lookup[OF gen, of b] assms(4) obtain eb where
    eb: "fake_anchor_entry ?d b = Inr eb" and lb: "map_of tbi b = Some (PerAnchor eb)" by auto
  from la assms(5) obj have A: "anchor_of (trials_by_image obj) a = Some ea"
    by (simp add: anchor_of_def update_conv')
  from lb assms(6) obj have B: "anchor_of (trials_by_image obj) b = Some eb"
    by (simp add: anchor_of_def update_conv')
  from fake_anchor_entry_Inr[OF ea] obtain ra where ra: "map_of ?d a = Some ra"
    and sa: "\<And>x. x \<in> set (f_shape_matches ea) \<longleftrightarrow>
           x \<in> set (keys ?d) \<and> (\<exists>r2. map_of ?d x = Some r2 \<and> \<not> skip_shape_match a ra x r2)"
    and ta: "\<And>x. x \<in> set (f_texture_matches ea) \<longleftrightarrow>
           x \<in> set (keys ?d) \<and> (\<exists>r2. map_of ?d x = Some r2 \<and> \<not> skip_texture_match a ra x r2)"
    and ca: "\<And>x. x \<in> set (f_color_matches ea) \<longleftrightarrow>
           x \<in> set (keys ?d) \<and> (\<exists>r2. map_of ?d x = Some r2 \<and> \<not> skip_color_match a ra x r2)"
    by blast
  from fake_anchor_entry_Inr[OF eb] obtain rb where rb: "map_of ?d b = Some rb"
    and sb: "\<And>x. x \<in> set (f_shape_matches eb) \<longleftrightarrow>
           x \<in> set (keys ?d) \<and> (\<exists>r2. map_of ?d x = Some r2 \<and> \<not> skip_shape_match b rb x r2)"
    and tb: "\<And>x. x \<in> set (f_texture_matches eb) \<longleftrightarrow>
           x \<in> set (keys ?d) \<and> (\<exists>r2. map_of ?d x = Some r2 \<and> \<not> skip_texture_match b rb x r2)"
    and cb: "\<And>x. x \<in> set (f_color_matches eb) \<longleftrightarrow>
           x \<in> set (keys ?d) \<and> (\<exists>r2. map_of ?d x = Some r2 \<and> \<not> skip_color_match b rb x r2)"
    by blast
  have S: "b \<in> set (f_shape_matches ea) \<longleftrightarrow> a \<in> set (f_shape_matches eb)"
    using sa[of b] sb[of a] ra rb assms(3,4) skip_shape_match_sym[of a ra b rb] by simp
  have T: "b \<in> set (f_texture_matches ea) \<longleftrightarrow> a \<in> set (f_texture_matches eb)"
    using ta[of b] tb[of a] ra rb assms(3,4) skip_texture_match_sym[of a ra b rb] by simp
  have C: "b \<in> set (f_color_matches ea) \<longleftrightarrow> a \<in> set (f_color_matches eb)"
    using ca[of b] cb[of a] ra rb assms(3,4) skip_color_match_sym[of a ra b rb] by simp
  from A B S T C show ?thesis by blast
qed

theorem fake_matches_symmetric_witness:
  "fake_trials_json ex_fake_world = None
   \<and> (\<exists>obj w'. FakeStimTrials_init readable_stats (None :: unit option) glob
       ''stimuli-shape/fake'' ex_fake_world = Inr (obj, w')
        \<and> ''sq_red_blue.png'' \<in> set (keys (all_stims obj))
        \<and> ''sq_blue_red.png'' \<in> set (keys (all_stims obj))
        \<and> (\<exists>ea eb. anchor_of (trials_by_image obj) ''sq_red_blue.png'' = Some ea
              \<and> anchor_of (trials_by_image obj) ''sq_blue_red.png'' = Some eb
              \<and> f_shape_matches ea = [''sq_blue_red.png'']
              \<and> (''sq_blue_red.png'' \<in> set (f_shape_matches ea) \<longleftrightarrow>
                   ''sq_red_blue.png'' \<in> set (f_shape_matches eb))
              \<and> (''sq_blue_red.png'' \<in> set (f_texture_matches ea) \<longleftrightarrow>
                   ''sq_red_blue.png'' \<in> set (f_texture_matches eb))
              \<and> (''sq_blue_red.png'' \<in> set (f_color_matches ea) \<longleftrightarrow>
                   ''sq_red_blue.png'' \<in> set (f_color_matches eb))))
   \<and> ''sq_red_blue.png'' \<noteq> ''all'' \<and> ''sq_blue_red.png'' \<noteq> ''all''"
proof -
  have h: "fake_trials_json ex_fake_world = None"
    by (simp add: ex_fake_world_def)
  have "\<not> isl (FakeStimTrials_init readable_stats (None :: unit option) glob
      ''stimuli-shape/fake'' ex_fake_world)"
    by code_simp
  then obtain obj w1 where
    i: "FakeStimTrials_init readable_stats (None :: unit option) glob ''stimuli-shape/fake''
        ex_fake_world = Inr (obj, w1)"
    by (cases "FakeStimTrials_init readable_stats (None :: unit option) glob
        ''stimuli-shape/fake'' ex_fake_world") auto
  have "keys (all_stims (fst (projr (FakeStimTrials_init readable_stats (None :: unit option)
      glob ''stimuli-shape/fake''
      ex_fake_world)))) =
      [''sq_red_blue.png'', ''sq_blue_red.png'', ''tri_red_green.png'', ''tri_blue_blue.png'']"
    by code_simp
  with i have k: "keys (all_stims obj) =
      [''sq_red_blue.png'', ''sq_blue_red.png'', ''tri_red_green.png'', ''tri_blue_blue.png'']"
    by simp
  have ka: "''sq_red_blue.png'' \<in> set (keys (all_stims obj))" unfolding k by simp
  have kb: "''sq_blue_red.png'' \<in> set (keys (all_stims obj))" unfolding k by simp
  have na: "''sq_red_blue.png'' \<noteq> ''all''" by simp
  have nb: "''sq_blue_red.png'' \<noteq> ''all''" by simp
  have "map_option f_shape_matches (anchor_of (trials_by_image (fst (projr
      (FakeStimTrials_init readable_stats (None :: unit option) glob ''stimuli-shape/fake''
          ex_fake_world)))) ''sq_red_blue.png'')
      = Some [''sq_blue_red.png'']"
    by code_simp
  with i have m: "map_option f_shape_matches
      (anchor_of (trials_by_image obj) ''sq_red_blue.png'') = Some [''sq_blue_red.png'']"
    by simp
  from fake_matches_symmetric[OF h i ka kb na nb] obtain ea eb where
    A: "anchor_of (trials_by_image obj) ''sq_red_blue.png'' = Some ea"
    and B: "anchor_of (trials_by_image obj) ''sq_blue_red.png'' = Some eb"
    and S: "''sq_blue_red.png'' \<in> set (f_shape_matches ea) \<longleftrightarrow>
             ''sq_red_blue.png'' \<in> set (f_shape_matches eb)"
    and T: "''sq_blue_red.png'' \<in> set (f_texture_matches ea) \<longleftrightarrow>
             ''sq_red_blue.png'' \<in> set (f_texture_matches eb)"
    and C: "''sq_blue_red.png'' \<in> set (f_color_matches ea) \<longleftrightarrow>
             ''sq_red_blue.png'' \<in> set (f_color_matches eb)"
    by blast
  from m A have M: "f_shape_matches ea = [''sq_blue_red.png'']" by simp
  have inner: "\<exists>ea eb. anchor_of (trials_by_image obj) ''sq_red_blue.png'' = Some ea
              \<and> anchor_of (trials_by_image obj) ''sq_blue_red.png'' = Some eb
              \<and> f_shape_matches ea = [''sq_blue_red.png'']
              \<and> (''sq_blue_red.png'' \<in> set (f_shape_matches ea) \<longleftrightarrow>
                   ''sq_red_blue.png'' \<in> set (f_shape_matches eb))
              \<and> (''sq_blue_red.png'' \<in> set (f_texture_matches ea) \<longleftrightarrow>
                   ''sq_red_blue.png'' \<in> set (f_texture_matches eb))
              \<and> (''sq_blue_red.png'' \<in> set (f_color_matches ea) \<longleftrightarrow>
                   ''sq_red_blue.png'' \<in> set (f_color_matches eb))"
    using A B M S T C by (intro exI[of _ ea] exI[of _ eb] conjI)
  have "\<exists>obj w'. FakeStimTrials_init readable_stats (None :: unit option) glob
      ''stimuli-shape/fake'' ex_fake_world = Inr (obj, w')
        \<and> ''sq_red_blue.png'' \<in> set (keys (all_stims obj))
        \<and> ''sq_blue_red.png'' \<in> set (keys (all_stims obj))
        \<and> (\<exists>ea eb. anchor_of (trials_by_image obj) ''sq_red_blue.png'' = Some ea
              \<and> anchor_of (trials_by_image obj) ''sq_blue_red.png'' = Some eb
              \<and> f_shape_matches ea = [''sq_blue_red.png'']
              \<and> (''sq_blue_red.png'' \<in> set (f_shape_matches ea) \<longleftrightarrow>
                   ''sq_red_blue.png'' \<in> set (f_shape_matches eb))
              \<and> (''sq_blue_red.png'' \<in> set (f_texture_matches ea) \<longleftrightarrow>
                   ''sq_red_blue.png'' \<in> set (f_texture_matches eb))
              \<and> (''sq_blue_red.png'' \<in> set (f_color_matches ea) \<longleftrightarrow>
                   ''sq_red_blue.png'' \<in> set (f_color_matches eb)))"
    using i ka kb inner by (intro exI[of _ obj] exI[of _ w1] conjI)
  with h na nb show ?thesis by (intro conjI)
qed

text \<open>
  Claim C7. The code at the storage of \<^verbatim>\<open>cat1-truck3.png\<close> and \<^verbatim>\<open>cat10-truck3.png\<close>. The
  anchor \<^verbatim>\<open>cat1-truck3.png\<close> has one shape match and one texture match, both
  \<^verbatim>\<open>cat10-truck3.png\<close>; the anchor \<^verbatim>\<open>cat10-truck3.png\<close> has no shape match. The sum of the
  products of the match-list sizes is 1, and the one tuple of the products names the same
  image twice: the count of the claim, the products less the tuples that are not pairwise
  distinct, is 0. The nested loops at lines 265--269 have no distinctness test and keep the
  tuple: the corpus holds 1 triplet. For the fake trials the count of the claim is the
  code's (lemmas \<open>trials_count\<close> and \<open>trials_filtered_product\<close>).
\<close>

theorem style_transfer_count_keeps_repeated_match:
  "(case GeirhosTriplets_init readable_stats (None :: unit option) glob
           ''stimuli-shape/style-transfer'' ex_prefix_world of
      Inl err \<Rightarrow> False
    | Inr (obj, w') \<Rightarrow>
        map (\<lambda>(a, e). (a, length (shape_matches e), length (texture_matches e)))
            (anchors (triplets_by_image obj)) =
          [(''cat1-truck3.png'', 1, 1), (''cat10-truck3.png'', 0, 1)]
        \<and> sum_list (map (\<lambda>(a, e). length (shape_matches e) * length (texture_matches e))
              (anchors (triplets_by_image obj))) = 1
        \<and> sum_list (map (\<lambda>(a, e). length (filter (\<lambda>t. \<not> distinct t) (candidate_triplets a e)))
              (anchors (triplets_by_image obj))) = 1
        \<and> sum_list (map (\<lambda>(a, e). length (shape_matches e) * length (texture_matches e)
                - length (filter (\<lambda>t. \<not> distinct t) (candidate_triplets a e)))
              (anchors (triplets_by_image obj))) = 0
        \<and> (case all_triplets obj of
             PerAnchor e \<Rightarrow> False
           | AllTuples ts \<Rightarrow> length ts = 1 \<and> length (filter distinct ts) = 0))"
  by code_simp

text \<open>
  Claim C8. Index construction reads the persisted index first, after the image-processing
  block of the constructor has returned. If the file is there, the index is the file's
  content as it is, whatever \<^verbatim>\<open>glob\<close> would list and whatever the entries are, and storage is
  not touched. If the file is missing and every listed path parses (for the fake set:
  every listed path is a file of storage, is listed once, parses, and its name is marked
  or has three fields), the constructor returns: the keys of its index are the names of the listed images to be indexed, in the
  order in which they are first listed, each name has the record parsed from the last
  listed path of that name, no other name has a record, and the index is saved; the fake
  constructor has then deleted from storage the listed files that are marked, and no other.
  This holds for \<^verbatim>\<open>GeirhosStyleTransferDataset\<close>, \<^verbatim>\<open>GeirhosTriplets\<close> and \<^verbatim>\<open>FakeStimTrials\<close>; the
  two constructors that go on to the corpus return if the corpus file, when there is one,
  has the key \<^verbatim>\<open>'all'\<close> that line 237 or 364 reads.
\<close>

theorem index_load_or_rebuild:
  "(geirhos_shape_classes_json w = Some d
      \<and> \<not> isl (image_processing stats transform (files w) ''stimuli-shape/style-transfer'' False)
    \<longrightarrow>
      GeirhosStyleTransferDataset_init stats transform g w = Inr (d, w)
    \<and> ((\<forall>tbi. geirhos_triplets_json w = Some tbi \<longrightarrow> ''all'' \<in> set (keys tbi)) \<longrightarrow>
         (\<exists>obj w'. GeirhosTriplets_init stats transform g shape_dir w = Inr (obj, w')
            \<and> shape_classes obj = d \<and> files w' = files w
            \<and> geirhos_shape_classes_json w' = Some d)))
   \<and> (geirhos_shape_classes_json w = None
      \<and> \<not> isl (image_processing stats transform (files w) ''stimuli-shape/style-transfer'' False)
      \<and> (\<forall>p \<in> set (g (files w) ''stimuli-shape/style-transfer/*/*.png'').
            \<not> isl (parse_image p))
    \<longrightarrow>
      (\<exists>d'. GeirhosStyleTransferDataset_init stats transform g w =
               Inr (d', w\<lparr>geirhos_shape_classes_json := Some d'\<rparr>)
          \<and> keys d' = first_occurrences
               (cue_conflict_names (g (files w) ''stimuli-shape/style-transfer/*/*.png''))
          \<and> map_of d' =
               expected_shape_classes (g (files w) ''stimuli-shape/style-transfer/*/*.png''))
    \<and> ((\<forall>tbi. geirhos_triplets_json w = Some tbi \<longrightarrow> ''all'' \<in> set (keys tbi)) \<longrightarrow>
         (\<exists>obj w'. GeirhosTriplets_init stats transform g shape_dir w = Inr (obj, w')
            \<and> keys (shape_classes obj) = first_occurrences
                 (cue_conflict_names (g (files w) ''stimuli-shape/style-transfer/*/*.png''))
            \<and> map_of (shape_classes obj) =
                 expected_shape_classes (g (files w) ''stimuli-shape/style-transfer/*/*.png'')
            \<and> files w' = files w
            \<and> geirhos_shape_classes_json w' = Some (shape_classes obj))))
   \<and> (fake_stimulus_classes_json v = Some fd
      \<and> \<not> isl (image_processing fstats ftransform (files v) ''stimuli-shape/fake'' True)
      \<and> (\<forall>tbi. fake_trials_json v = Some tbi \<longrightarrow> ''all'' \<in> set (keys tbi))
    \<longrightarrow>
      (\<exists>fobj v'. FakeStimTrials_init fstats ftransform g fake_dir v = Inr (fobj, v')
         \<and> all_stims fobj = fd \<and> files v' = files v
         \<and> fake_stimulus_classes_json v' = Some fd))
   \<and> (fake_stimulus_classes_json v = None
      \<and> \<not> isl (image_processing fstats ftransform (files v) ''stimuli-shape/fake'' True)
      \<and> (\<forall>tbi. fake_trials_json v = Some tbi \<longrightarrow> ''all'' \<in> set (keys tbi))
      \<and> distinct (g (files v) (fake_dir @ ''/*.png''))
      \<and> set (g (files v) (fake_dir @ ''/*.png'')) \<subseteq> set (files v)
      \<and> (\<forall>p \<in> set (g (files v) (fake_dir @ ''/*.png'')). three_fields p)
    \<longrightarrow>
      (\<exists>fobj v'. FakeStimTrials_init fstats ftransform g fake_dir v = Inr (fobj, v')
         \<and> keys (all_stims fobj) =
              first_occurrences (assigned_names (g (files v) (fake_dir @ ''/*.png'')))
         \<and> map_of (all_stims fobj) = expected_all_stims (g (files v) (fake_dir @ ''/*.png''))
         \<and> files v' = filter (\<lambda>f. \<not> (f \<in> set (g (files v) (fake_dir @ ''/*.png''))
                                        \<and> marked f)) (files v)
         \<and> fake_stimulus_classes_json v' = Some (all_stims fobj)))"
proof -
  let ?ps = "g (files w) ''stimuli-shape/style-transfer/*/*.png''"
  let ?qs = "g (files v) (fake_dir @ ''/*.png'')"
  let ?P = "image_processing stats transform (files w) ''stimuli-shape/style-transfer'' False"
  let ?Q = "image_processing fstats ftransform (files v) ''stimuli-shape/fake'' True"
  let ?T = "\<forall>tbi. geirhos_triplets_json w = Some tbi \<longrightarrow> ''all'' \<in> set (keys tbi)"
  let ?F = "\<forall>tbi. fake_trials_json v = Some tbi \<longrightarrow> ''all'' \<in> set (keys tbi)"
  have hit_dataset: "GeirhosStyleTransferDataset_init stats transform g w = Inr (d, w)"
    if "geirhos_shape_classes_json w = Some d" "\<not> isl ?P"
  proof -
    from that(2) obtain tr where "?P = Inr tr" by (auto simp: not_isl_iff)
    with that(1) show ?thesis
      by (simp add: GeirhosStyleTransferDataset_init_def load_shape_classes_cached)
  qed
  have hit_triplets: "\<exists>obj w'. GeirhosTriplets_init stats transform g shape_dir w = Inr (obj, w')
            \<and> shape_classes obj = d \<and> files w' = files w
            \<and> geirhos_shape_classes_json w' = Some d"
    if "geirhos_shape_classes_json w = Some d" "\<not> isl ?P" "?T"
    using GeirhosTriplets_init_returns[OF that(2) load_shape_classes_cached[OF that(1)] that(3)] .
  have miss_dataset: "\<exists>d'. GeirhosStyleTransferDataset_init stats transform g w =
               Inr (d', w\<lparr>geirhos_shape_classes_json := Some d'\<rparr>)
          \<and> keys d' = first_occurrences (cue_conflict_names ?ps)
          \<and> map_of d' = expected_shape_classes ?ps"
    if "geirhos_shape_classes_json w = None" "\<not> isl ?P" "\<forall>p \<in> set ?ps. \<not> isl (parse_image p)"
  proof -
    from that(2) obtain tr where p: "?P = Inr tr" by (auto simp: not_isl_iff)
    from rebuilt_shape_classes[where g = g and w = w, OF that(1,3)] obtain d' where
      l: "load_shape_classes g w = Inr (d', w\<lparr>geirhos_shape_classes_json := Some d'\<rparr>)"
      and k: "keys d' = first_occurrences (cue_conflict_names ?ps)"
      and m: "map_of d' = expected_shape_classes ?ps" by blast
    from p l have "GeirhosStyleTransferDataset_init stats transform g w =
               Inr (d', w\<lparr>geirhos_shape_classes_json := Some d'\<rparr>)"
      by (simp add: GeirhosStyleTransferDataset_init_def)
    with k m show ?thesis by (intro exI[of _ d'] conjI)
  qed
  have miss_triplets: "\<exists>obj w'. GeirhosTriplets_init stats transform g shape_dir w = Inr (obj, w')
            \<and> keys (shape_classes obj) = first_occurrences (cue_conflict_names ?ps)
            \<and> map_of (shape_classes obj) = expected_shape_classes ?ps
            \<and> files w' = files w
            \<and> geirhos_shape_classes_json w' = Some (shape_classes obj)"
    if "geirhos_shape_classes_json w = None" "\<not> isl ?P" "\<forall>p \<in> set ?ps. \<not> isl (parse_image p)" "?T"
  proof -
    from rebuilt_shape_classes[where g = g and w = w, OF that(1,3)] obtain d' where
      l: "load_shape_classes g w = Inr (d', w\<lparr>geirhos_shape_classes_json := Some d'\<rparr>)"
      and k: "keys d' = first_occurrences (cue_conflict_names ?ps)"
      and m: "map_of d' = expected_shape_classes ?ps" by blast
    from GeirhosTriplets_init_returns[OF that(2) l that(4), of shape_dir] obtain obj w' where
      i: "GeirhosTriplets_init stats transform g shape_dir w = Inr (obj, w')"
      and s: "shape_classes obj = d'" and f: "files w' = files w"
      and j: "geirhos_shape_classes_json w' = Some d'" by blast
    from i k m f j show ?thesis unfolding s[symmetric]
      by (intro exI[of _ obj] exI[of _ w'] conjI)
  qed
  have hit_fake: "\<exists>fobj v'. FakeStimTrials_init fstats ftransform g fake_dir v = Inr (fobj, v')
         \<and> all_stims fobj = fd \<and> files v' = files v
         \<and> fake_stimulus_classes_json v' = Some fd"
    if "fake_stimulus_classes_json v = Some fd" "\<not> isl ?Q" "?F"
    using FakeStimTrials_init_returns[OF that(2) load_all_stims_cached[OF that(1)] that(3)] .
  have miss_fake: "\<exists>fobj v'. FakeStimTrials_init fstats ftransform g fake_dir v = Inr (fobj, v')
         \<and> keys (all_stims fobj) = first_occurrences (assigned_names ?qs)
         \<and> map_of (all_stims fobj) = expected_all_stims ?qs
         \<and> files v' = filter (\<lambda>f. \<not> (f \<in> set ?qs \<and> marked f)) (files v)
         \<and> fake_stimulus_classes_json v' = Some (all_stims fobj)"
    if "fake_stimulus_classes_json v = None" "\<not> isl ?Q" "?F" "distinct ?qs"
      "set ?qs \<subseteq> set (files v)" "\<forall>p \<in> set ?qs. three_fields p"
  proof -
    let ?fs = "filter (\<lambda>f. \<not> (f \<in> set ?qs \<and> marked f)) (files v)"
    from rebuilt_all_stims[where g = g and w = v and fd = fake_dir, OF that(1,4,5,6)] obtain d' where
      l: "load_all_stims g fake_dir v =
            Inr (d', v\<lparr>files := ?fs, fake_stimulus_classes_json := Some d'\<rparr>)"
      and k: "keys d' = first_occurrences (assigned_names ?qs)"
      and m: "map_of d' = expected_all_stims ?qs" by blast
    from FakeStimTrials_init_returns[OF that(2) l that(3)] obtain fobj v' where
      i: "FakeStimTrials_init fstats ftransform g fake_dir v = Inr (fobj, v')"
      and s: "all_stims fobj = d'"
      and f: "files v' = files (v\<lparr>files := ?fs, fake_stimulus_classes_json := Some d'\<rparr>)"
      and j: "fake_stimulus_classes_json v' = Some d'" by blast
    from f have f': "files v' = ?fs" by simp
    from i k m f' j show ?thesis unfolding s[symmetric]
      by (intro exI[of _ fobj] exI[of _ v'] conjI)
  qed
  show ?thesis
  proof (intro conjI impI)
    assume a: "geirhos_shape_classes_json w = Some d \<and> \<not> isl ?P"
    from a show "GeirhosStyleTransferDataset_init stats transform g w = Inr (d, w)"
      by (intro hit_dataset) simp_all
    assume "?T"
    with a show "\<exists>obj w'. GeirhosTriplets_init stats transform g shape_dir w = Inr (obj, w')
            \<and> shape_classes obj = d \<and> files w' = files w
            \<and> geirhos_shape_classes_json w' = Some d"
      by (intro hit_triplets) simp_all
  next
    assume a: "geirhos_shape_classes_json w = None \<and> \<not> isl ?P
      \<and> (\<forall>p \<in> set ?ps. \<not> isl (parse_image p))"
    from a show "\<exists>d'. GeirhosStyleTransferDataset_init stats transform g w =
               Inr (d', w\<lparr>geirhos_shape_classes_json := Some d'\<rparr>)
          \<and> keys d' = first_occurrences (cue_conflict_names ?ps)
          \<and> map_of d' = expected_shape_classes ?ps"
      by (intro miss_dataset) simp_all
    assume "?T"
    with a show "\<exists>obj w'. GeirhosTriplets_init stats transform g shape_dir w = Inr (obj, w')
            \<and> keys (shape_classes obj) = first_occurrences (cue_conflict_names ?ps)
            \<and> map_of (shape_classes obj) = expected_shape_classes ?ps
            \<and> files w' = files w
            \<and> geirhos_shape_classes_json w' = Some (shape_classes obj)"
      by (intro miss_triplets) simp_all
  next
    assume "fake_stimulus_classes_json v = Some fd \<and> \<not> isl ?Q \<and> ?F"
    then show "\<exists>fobj v'. FakeStimTrials_init fstats ftransform g fake_dir v = Inr (fobj, v')
         \<and> all_stims fobj = fd \<and> files v' = files v
         \<and> fake_stimulus_classes_json v' = Some fd"
      by (intro hit_fake) simp_all
  next
    assume "fake_stimulus_classes_json v = None \<and> \<not> isl ?Q \<and> ?F \<and> distinct ?qs
      \<and> set ?qs \<subseteq> set (files v) \<and> (\<forall>p \<in> set ?qs. three_fields p)"
    then show "\<exists>fobj v'. FakeStimTrials_init fstats ftransform g fake_dir v = Inr (fobj, v')
         \<and> keys (all_stims fobj) = first_occurrences (assigned_names ?qs)
         \<and> map_of (all_stims fobj) = expected_all_stims ?qs
         \<and> files v' = filter (\<lambda>f. \<not> (f \<in> set ?qs \<and> marked f)) (files v)
         \<and> fake_stimulus_classes_json v' = Some (all_stims fobj)"
      by (intro miss_fake) simp_all
  qed
qed

theorem index_load_or_rebuild_witness:
  "geirhos_shape_classes_json ex_cached_world = Some ex_cached_shape_classes
   \<and> fake_stimulus_classes_json ex_cached_world = Some ex_cached_all_stims
   \<and> files ex_cached_world = []
   \<and> GeirhosStyleTransferDataset_init readable_stats (Some ()) glob ex_cached_world
       = Inr (ex_cached_shape_classes, ex_cached_world)
   \<and> (\<exists>obj w'. GeirhosTriplets_init readable_stats (Some ()) glob
          ''stimuli-shape/style-transfer'' ex_cached_world = Inr (obj, w')
        \<and> shape_classes obj = ex_cached_shape_classes \<and> files w' = files ex_cached_world
        \<and> geirhos_shape_classes_json w' = Some ex_cached_shape_classes)
   \<and> (\<exists>fobj v'. FakeStimTrials_init readable_stats (Some ()) glob
       ''stimuli-shape/fake''
          ex_cached_world = Inr (fobj, v')
        \<and> all_stims fobj = ex_cached_all_stims \<and> files v' = files ex_cached_world
        \<and> fake_stimulus_classes_json v' = Some ex_cached_all_stims)
   \<and> geirhos_shape_classes_json ex_style_world = None
   \<and> (\<exists>d'. GeirhosStyleTransferDataset_init readable_stats (None :: unit option) glob
          ex_style_world = Inr (d', ex_style_world\<lparr>geirhos_shape_classes_json := Some d'\<rparr>)
        \<and> d' =
            [(''cat4-truck3.png'',
              \<lparr>shape = ''cat'', texture = ''truck'', shape_spec = ''cat4'',
               texture_spec = ''truck3'',
               dir = ''stimuli-shape/style-transfer/cat/cat4-truck3.png''\<rparr>),
             (''cat4-boat2.png'',
              \<lparr>shape = ''cat'', texture = ''boat'', shape_spec = ''cat4'',
               texture_spec = ''boat2'',
               dir = ''stimuli-shape/style-transfer/cat/cat4-boat2.png''\<rparr>),
             (''dog3-truck3.png'',
              \<lparr>shape = ''dog'', texture = ''truck'', shape_spec = ''dog3'',
               texture_spec = ''truck3'',
               dir = ''stimuli-shape/style-transfer/dog/dog3-truck3.png''\<rparr>)]
        \<and> keys d' = first_occurrences (cue_conflict_names
             (glob (files ex_style_world) ''stimuli-shape/style-transfer/*/*.png''))
        \<and> map_of d' = expected_shape_classes
             (glob (files ex_style_world) ''stimuli-shape/style-transfer/*/*.png''))
   \<and> (\<exists>obj w'. GeirhosTriplets_init readable_stats (None :: unit option) glob
          ''stimuli-shape/style-transfer'' ex_style_world = Inr (obj, w')
        \<and> keys (shape_classes obj) =
            [''cat4-truck3.png'', ''cat4-boat2.png'', ''dog3-truck3.png'']
        \<and> keys (shape_classes obj) = first_occurrences (cue_conflict_names
             (glob (files ex_style_world) ''stimuli-shape/style-transfer/*/*.png''))
        \<and> map_of (shape_classes obj) = expected_shape_classes
             (glob (files ex_style_world) ''stimuli-shape/style-transfer/*/*.png'')
        \<and> files w' = files ex_style_world
        \<and> geirhos_shape_classes_json w' = Some (shape_classes obj))
   \<and> fake_stimulus_classes_json ex_fake_world = None
   \<and> (\<exists>fobj v'. FakeStimTrials_init readable_stats (None :: unit option) glob
          ''stimuli-shape/fake'' ex_fake_world = Inr (fobj, v')
        \<and> all_stims fobj =
            [(''sq_red_blue.png'',
              \<lparr>f_shape = ''sq'', f_texture = ''red'', f_color = ''blue'',
               f_dir = ''stimuli-shape/fake/sq_red_blue.png''\<rparr>),
             (''sq_blue_red.png'',
              \<lparr>f_shape = ''sq'', f_texture = ''blue'', f_color = ''red'',
               f_dir = ''stimuli-shape/fake/sq_blue_red.png''\<rparr>),
             (''tri_red_green.png'',
              \<lparr>f_shape = ''tri'', f_texture = ''red'', f_color = ''green'',
               f_dir = ''stimuli-shape/fake/tri_red_green.png''\<rparr>),
             (''tri_blue_blue.png'',
              \<lparr>f_shape = ''tri'', f_texture = ''blue'', f_color = ''blue'',
               f_dir = ''stimuli-shape/fake/tri_blue_blue.png''\<rparr>)]
        \<and> files v' =
            [''stimuli-shape/fake/sq_red_blue.png'', ''stimuli-shape/fake/sq_blue_red.png'',
             ''stimuli-shape/fake/tri_red_green.png'', ''stimuli-shape/fake/tri_blue_blue.png'']
        \<and> keys (all_stims fobj) = first_occurrences (assigned_names
             (glob (files ex_fake_world) (''stimuli-shape/fake'' @ ''/*.png'')))
        \<and> map_of (all_stims fobj) = expected_all_stims
             (glob (files ex_fake_world) (''stimuli-shape/fake'' @ ''/*.png''))
        \<and> files v' = filter (\<lambda>f. \<not> (f \<in> set (glob (files ex_fake_world)
                                                 (''stimuli-shape/fake'' @ ''/*.png''))
                                      \<and> marked f)) (files ex_fake_world)
        \<and> fake_stimulus_classes_json v' = Some (all_stims fobj))"
proof -
  let ?sd = "''stimuli-shape/style-transfer''"
  let ?fd = "''stimuli-shape/fake''"
  let ?ps = "glob (files ex_style_world) ''stimuli-shape/style-transfer/*/*.png''"
  let ?qs = "glob (files ex_fake_world) (?fd @ ''/*.png'')"
  note c = index_load_or_rebuild[where w = ex_cached_world and d = ex_cached_shape_classes
      and stats = readable_stats and transform = "Some ()" and g = glob and shape_dir = ?sd
      and v = ex_cached_world and fd = ex_cached_all_stims and fstats = readable_stats
      and ftransform = "Some ()" and fake_dir = ?fd]
  note s = index_load_or_rebuild[where w = ex_style_world and stats = readable_stats
      and transform = "None :: unit option" and g = glob and shape_dir = ?sd
      and v = ex_fake_world and fstats = readable_stats
      and ftransform = "None :: unit option" and fake_dir = ?fd]
  have h1: "geirhos_shape_classes_json ex_cached_world = Some ex_cached_shape_classes"
    by (simp add: ex_cached_world_def)
  have h2: "fake_stimulus_classes_json ex_cached_world = Some ex_cached_all_stims"
    by (simp add: ex_cached_world_def)
  have h0: "files ex_cached_world = []"
    by (simp add: ex_cached_world_def)
  have p1: "\<not> isl (image_processing readable_stats (Some ()) (files ex_cached_world) ?sd
      False)"
    by (simp add: image_processing_def)
  have p2: "\<not> isl (image_processing readable_stats (Some ()) (files ex_cached_world) ?fd True)"
    by (simp add: image_processing_def)
  have t1: "\<forall>tbi. geirhos_triplets_json ex_cached_world = Some tbi \<longrightarrow> ''all'' \<in> set (keys tbi)"
    by (simp add: ex_cached_world_def)
  have t2: "\<forall>tbi. fake_trials_json ex_cached_world = Some tbi \<longrightarrow> ''all'' \<in> set (keys tbi)"
    by (simp add: ex_cached_world_def)
  from c[THEN conjunct1] h1 p1
  have d1: "GeirhosStyleTransferDataset_init readable_stats (Some ()) glob ex_cached_world
       = Inr (ex_cached_shape_classes, ex_cached_world)" by simp
  from c[THEN conjunct1] h1 p1 t1
  have e1: "\<exists>obj w'. GeirhosTriplets_init readable_stats (Some ()) glob ?sd ex_cached_world
          = Inr (obj, w')
        \<and> shape_classes obj = ex_cached_shape_classes \<and> files w' = files ex_cached_world
        \<and> geirhos_shape_classes_json w' = Some ex_cached_shape_classes" by simp
  from c[THEN conjunct2, THEN conjunct2, THEN conjunct1] h2 p2 t2
  have e2: "\<exists>fobj v'. FakeStimTrials_init readable_stats (Some ()) glob ?fd
          ex_cached_world = Inr (fobj, v')
        \<and> all_stims fobj = ex_cached_all_stims \<and> files v' = files ex_cached_world
        \<and> fake_stimulus_classes_json v' = Some ex_cached_all_stims" by simp
  have h3: "geirhos_shape_classes_json ex_style_world = None"
    by (simp add: ex_style_world_def)
  have h4: "fake_stimulus_classes_json ex_fake_world = None"
    by (simp add: ex_fake_world_def)
  have p3: "\<not> isl (image_processing readable_stats (None :: unit option) (files ex_style_world)
      ?sd False)"
    by (simp add: image_processing_def readable_stats_def)
  have p4: "\<not> isl (image_processing readable_stats (None :: unit option) (files ex_fake_world)
      ?fd True)"
    by (simp add: image_processing_def readable_stats_def)
  have t3: "\<forall>tbi. geirhos_triplets_json ex_style_world = Some tbi \<longrightarrow> ''all'' \<in> set (keys tbi)"
    by (simp add: ex_style_world_def)
  have t4: "\<forall>tbi. fake_trials_json ex_fake_world = Some tbi \<longrightarrow> ''all'' \<in> set (keys tbi)"
    by (simp add: ex_fake_world_def)
  have q3: "\<forall>p \<in> set ?ps. \<not> isl (parse_image p)" by code_simp
  have q4: "distinct ?qs" by code_simp
  have q5: "set ?qs \<subseteq> set (files ex_fake_world)" by code_simp
  have q6: "\<forall>p \<in> set ?qs. three_fields p" by code_simp
  from s[THEN conjunct2, THEN conjunct1] h3 p3 q3 obtain d' where
    i3: "GeirhosStyleTransferDataset_init readable_stats (None :: unit option) glob
          ex_style_world = Inr (d', ex_style_world\<lparr>geirhos_shape_classes_json := Some d'\<rparr>)"
    and k3: "keys d' = first_occurrences (cue_conflict_names ?ps)"
    and m3: "map_of d' = expected_shape_classes ?ps" by blast
  have "fst (projr (GeirhosStyleTransferDataset_init readable_stats (None :: unit option) glob
          ex_style_world)) =
            [(''cat4-truck3.png'',
              \<lparr>shape = ''cat'', texture = ''truck'', shape_spec = ''cat4'',
               texture_spec = ''truck3'',
               dir = ''stimuli-shape/style-transfer/cat/cat4-truck3.png''\<rparr>),
             (''cat4-boat2.png'',
              \<lparr>shape = ''cat'', texture = ''boat'', shape_spec = ''cat4'',
               texture_spec = ''boat2'',
               dir = ''stimuli-shape/style-transfer/cat/cat4-boat2.png''\<rparr>),
             (''dog3-truck3.png'',
              \<lparr>shape = ''dog'', texture = ''truck'', shape_spec = ''dog3'',
               texture_spec = ''truck3'',
               dir = ''stimuli-shape/style-transfer/dog/dog3-truck3.png''\<rparr>)]"
    by code_simp
  with i3 have l3: "d' =
            [(''cat4-truck3.png'',
              \<lparr>shape = ''cat'', texture = ''truck'', shape_spec = ''cat4'',
               texture_spec = ''truck3'',
               dir = ''stimuli-shape/style-transfer/cat/cat4-truck3.png''\<rparr>),
             (''cat4-boat2.png'',
              \<lparr>shape = ''cat'', texture = ''boat'', shape_spec = ''cat4'',
               texture_spec = ''boat2'',
               dir = ''stimuli-shape/style-transfer/cat/cat4-boat2.png''\<rparr>),
             (''dog3-truck3.png'',
              \<lparr>shape = ''dog'', texture = ''truck'', shape_spec = ''dog3'',
               texture_spec = ''truck3'',
               dir = ''stimuli-shape/style-transfer/dog/dog3-truck3.png''\<rparr>)]"
    by simp
  have e3: "\<exists>d'. GeirhosStyleTransferDataset_init readable_stats (None :: unit option) glob
          ex_style_world = Inr (d', ex_style_world\<lparr>geirhos_shape_classes_json := Some d'\<rparr>)
        \<and> d' =
            [(''cat4-truck3.png'',
              \<lparr>shape = ''cat'', texture = ''truck'', shape_spec = ''cat4'',
               texture_spec = ''truck3'',
               dir = ''stimuli-shape/style-transfer/cat/cat4-truck3.png''\<rparr>),
             (''cat4-boat2.png'',
              \<lparr>shape = ''cat'', texture = ''boat'', shape_spec = ''cat4'',
               texture_spec = ''boat2'',
               dir = ''stimuli-shape/style-transfer/cat/cat4-boat2.png''\<rparr>),
             (''dog3-truck3.png'',
              \<lparr>shape = ''dog'', texture = ''truck'', shape_spec = ''dog3'',
               texture_spec = ''truck3'',
               dir = ''stimuli-shape/style-transfer/dog/dog3-truck3.png''\<rparr>)]
        \<and> keys d' = first_occurrences (cue_conflict_names ?ps)
        \<and> map_of d' = expected_shape_classes ?ps"
    using i3 l3 k3 m3 by (intro exI[of _ d'] conjI)
  from s[THEN conjunct2, THEN conjunct1] h3 p3 q3 t3 obtain obj w4 where
    i4: "GeirhosTriplets_init readable_stats (None :: unit option) glob ?sd ex_style_world
           = Inr (obj, w4)"
    and k4: "keys (shape_classes obj) = first_occurrences (cue_conflict_names ?ps)"
    and m4: "map_of (shape_classes obj) = expected_shape_classes ?ps"
    and f4: "files w4 = files ex_style_world"
    and j4: "geirhos_shape_classes_json w4 = Some (shape_classes obj)" by blast
  have "keys (shape_classes (fst (projr (GeirhosTriplets_init readable_stats
          (None :: unit option) glob ?sd ex_style_world)))) =
      [''cat4-truck3.png'', ''cat4-boat2.png'', ''dog3-truck3.png'']"
    by code_simp
  with i4 have l4: "keys (shape_classes obj) =
      [''cat4-truck3.png'', ''cat4-boat2.png'', ''dog3-truck3.png'']" by simp
  have e4: "\<exists>obj w'. GeirhosTriplets_init readable_stats (None :: unit option) glob
          ?sd ex_style_world = Inr (obj, w')
        \<and> keys (shape_classes obj) =
            [''cat4-truck3.png'', ''cat4-boat2.png'', ''dog3-truck3.png'']
        \<and> keys (shape_classes obj) = first_occurrences (cue_conflict_names ?ps)
        \<and> map_of (shape_classes obj) = expected_shape_classes ?ps
        \<and> files w' = files ex_style_world
        \<and> geirhos_shape_classes_json w' = Some (shape_classes obj)"
    using i4 l4 k4 m4 f4 j4 by (intro exI[of _ obj] exI[of _ w4] conjI)
  from s[THEN conjunct2, THEN conjunct2, THEN conjunct2] h4 p4 t4 q4 q5 q6
  obtain fobj v5 where
    i5: "FakeStimTrials_init readable_stats (None :: unit option) glob ?fd ex_fake_world
           = Inr (fobj, v5)"
    and k5: "keys (all_stims fobj) = first_occurrences (assigned_names ?qs)"
    and m5: "map_of (all_stims fobj) = expected_all_stims ?qs"
    and f5: "files v5 = filter (\<lambda>f. \<not> (f \<in> set ?qs \<and> marked f)) (files ex_fake_world)"
    and j5: "fake_stimulus_classes_json v5 = Some (all_stims fobj)" by blast
  have "all_stims (fst (projr (FakeStimTrials_init readable_stats (None :: unit option) glob
          ?fd ex_fake_world))) =
            [(''sq_red_blue.png'',
              \<lparr>f_shape = ''sq'', f_texture = ''red'', f_color = ''blue'',
               f_dir = ''stimuli-shape/fake/sq_red_blue.png''\<rparr>),
             (''sq_blue_red.png'',
              \<lparr>f_shape = ''sq'', f_texture = ''blue'', f_color = ''red'',
               f_dir = ''stimuli-shape/fake/sq_blue_red.png''\<rparr>),
             (''tri_red_green.png'',
              \<lparr>f_shape = ''tri'', f_texture = ''red'', f_color = ''green'',
               f_dir = ''stimuli-shape/fake/tri_red_green.png''\<rparr>),
             (''tri_blue_blue.png'',
              \<lparr>f_shape = ''tri'', f_texture = ''blue'', f_color = ''blue'',
               f_dir = ''stimuli-shape/fake/tri_blue_blue.png''\<rparr>)]"
    by code_simp
  with i5 have l5: "all_stims fobj =
            [(''sq_red_blue.png'',
              \<lparr>f_shape = ''sq'', f_texture = ''red'', f_color = ''blue'',
               f_dir = ''stimuli-shape/fake/sq_red_blue.png''\<rparr>),
             (''sq_blue_red.png'',
              \<lparr>f_shape = ''sq'', f_texture = ''blue'', f_color = ''red'',
               f_dir = ''stimuli-shape/fake/sq_blue_red.png''\<rparr>),
             (''tri_red_green.png'',
              \<lparr>f_shape = ''tri'', f_texture = ''red'', f_color = ''green'',
               f_dir = ''stimuli-shape/fake/tri_red_green.png''\<rparr>),
             (''tri_blue_blue.png'',
              \<lparr>f_shape = ''tri'', f_texture = ''blue'', f_color = ''blue'',
               f_dir = ''stimuli-shape/fake/tri_blue_blue.png''\<rparr>)]"
    by simp
  have "files (snd (projr (FakeStimTrials_init readable_stats (None :: unit option) glob
          ?fd ex_fake_world))) =
      [''stimuli-shape/fake/sq_red_blue.png'', ''stimuli-shape/fake/sq_blue_red.png'',
       ''stimuli-shape/fake/tri_red_green.png'', ''stimuli-shape/fake/tri_blue_blue.png'']"
    by code_simp
  with i5 have g5: "files v5 =
      [''stimuli-shape/fake/sq_red_blue.png'', ''stimuli-shape/fake/sq_blue_red.png'',
       ''stimuli-shape/fake/tri_red_green.png'', ''stimuli-shape/fake/tri_blue_blue.png'']"
    by simp
  have e5: "\<exists>fobj v'. FakeStimTrials_init readable_stats (None :: unit option) glob
          ?fd ex_fake_world = Inr (fobj, v')
        \<and> all_stims fobj =
            [(''sq_red_blue.png'',
              \<lparr>f_shape = ''sq'', f_texture = ''red'', f_color = ''blue'',
               f_dir = ''stimuli-shape/fake/sq_red_blue.png''\<rparr>),
             (''sq_blue_red.png'',
              \<lparr>f_shape = ''sq'', f_texture = ''blue'', f_color = ''red'',
               f_dir = ''stimuli-shape/fake/sq_blue_red.png''\<rparr>),
             (''tri_red_green.png'',
              \<lparr>f_shape = ''tri'', f_texture = ''red'', f_color = ''green'',
               f_dir = ''stimuli-shape/fake/tri_red_green.png''\<rparr>),
             (''tri_blue_blue.png'',
              \<lparr>f_shape = ''tri'', f_texture = ''blue'', f_color = ''blue'',
               f_dir = ''stimuli-shape/fake/tri_blue_blue.png''\<rparr>)]
        \<and> files v' =
            [''stimuli-shape/fake/sq_red_blue.png'', ''stimuli-shape/fake/sq_blue_red.png'',
             ''stimuli-shape/fake/tri_red_green.png'', ''stimuli-shape/fake/tri_blue_blue.png'']
        \<and> keys (all_stims fobj) = first_occurrences (assigned_names ?qs)
        \<and> map_of (all_stims fobj) = expected_all_stims ?qs
        \<and> files v' = filter (\<lambda>f. \<not> (f \<in> set ?qs \<and> marked f)) (files ex_fake_world)
        \<and> fake_stimulus_classes_json v' = Some (all_stims fobj)"
    using i5 l5 g5 k5 m5 f5 j5 by (intro exI[of _ fobj] exI[of _ v5] conjI)
  from h1 h2 h0 d1 e1 e2 h3 e3 e4 h4 e5 show ?thesis by (intro conjI)
qed

text \<open>
  Claim C9. After a constructor has returned, constructing again from the world it left
  loads both files and changes nothing: the index is the persisted index, the flattened
  tuple list is the one under the key \<^verbatim>\<open>'all'\<close> of the corpus file and equals the first
  object's list, every anchor other than \<^verbatim>\<open>'all'\<close> has the entry it had, and \<^verbatim>\<open>'all'\<close> is not a
  key of the reloaded per-anchor dictionary. The image-processing block of the second
  construction runs before the files are read. For the style-transfer triplets it returns
  what it returned the first time, as storage is unchanged; the fake constructor may have
  deleted files, so its second image-processing block is assumed to return.
\<close>

theorem persist_reload_round_trip:
  "(GeirhosTriplets_init stats transform g shape_dir w = Inr (obj, w1) \<longrightarrow>
      (\<exists>obj'. GeirhosTriplets_init stats transform g' shape_dir' w1 = Inr (obj', w1)
         \<and> geirhos_shape_classes_json w1 = Some (shape_classes obj)
         \<and> shape_classes obj' = shape_classes obj
         \<and> all_triplets obj' = all_triplets obj
         \<and> triplets_by_image obj' = AList.delete ''all'' (triplets_by_image obj)
         \<and> (\<forall>a. a \<noteq> ''all'' \<longrightarrow>
               map_of (triplets_by_image obj') a = map_of (triplets_by_image obj) a)
         \<and> ''all'' \<notin> set (keys (triplets_by_image obj'))
         \<and> (\<exists>tb. geirhos_triplets_json w1 = Some tb
               \<and> map_of tb ''all'' = Some (all_triplets obj))))
   \<and> (FakeStimTrials_init fstats ftransform g fake_dir v = Inr (fobj, v1)
      \<and> \<not> isl (image_processing fstats' ftransform' (files v1) ''stimuli-shape/fake'' True)
    \<longrightarrow>
      (\<exists>fobj'. FakeStimTrials_init fstats' ftransform' g' fake_dir' v1 = Inr (fobj', v1)
         \<and> fake_stimulus_classes_json v1 = Some (all_stims fobj)
         \<and> all_stims fobj' = all_stims fobj
         \<and> all_trials fobj' = all_trials fobj
         \<and> trials_by_image fobj' = AList.delete ''all'' (trials_by_image fobj)
         \<and> (\<forall>a. a \<noteq> ''all'' \<longrightarrow>
               map_of (trials_by_image fobj') a = map_of (trials_by_image fobj) a)
         \<and> ''all'' \<notin> set (keys (trials_by_image fobj'))
         \<and> (\<exists>tb. fake_trials_json v1 = Some tb
               \<and> map_of tb ''all'' = Some (all_trials fobj))))"
proof (intro conjI impI)
  assume "GeirhosTriplets_init stats transform g shape_dir w = Inr (obj, w1)"
  then show "\<exists>obj'. GeirhosTriplets_init stats transform g' shape_dir' w1 = Inr (obj', w1)
         \<and> geirhos_shape_classes_json w1 = Some (shape_classes obj)
         \<and> shape_classes obj' = shape_classes obj
         \<and> all_triplets obj' = all_triplets obj
         \<and> triplets_by_image obj' = AList.delete ''all'' (triplets_by_image obj)
         \<and> (\<forall>a. a \<noteq> ''all'' \<longrightarrow>
               map_of (triplets_by_image obj') a = map_of (triplets_by_image obj) a)
         \<and> ''all'' \<notin> set (keys (triplets_by_image obj'))
         \<and> (\<exists>tb. geirhos_triplets_json w1 = Some tb
               \<and> map_of tb ''all'' = Some (all_triplets obj))"
    by (rule triplets_reload)
next
  assume a: "FakeStimTrials_init fstats ftransform g fake_dir v = Inr (fobj, v1)
      \<and> \<not> isl (image_processing fstats' ftransform' (files v1) ''stimuli-shape/fake'' True)"
  then obtain tr where
    p: "image_processing fstats' ftransform' (files v1) ''stimuli-shape/fake'' True = Inr tr"
    by (auto simp: not_isl_iff)
  from a have i: "FakeStimTrials_init fstats ftransform g fake_dir v = Inr (fobj, v1)" by simp
  show "\<exists>fobj'. FakeStimTrials_init fstats' ftransform' g' fake_dir' v1 = Inr (fobj', v1)
         \<and> fake_stimulus_classes_json v1 = Some (all_stims fobj)
         \<and> all_stims fobj' = all_stims fobj
         \<and> all_trials fobj' = all_trials fobj
         \<and> trials_by_image fobj' = AList.delete ''all'' (trials_by_image fobj)
         \<and> (\<forall>a. a \<noteq> ''all'' \<longrightarrow>
               map_of (trials_by_image fobj') a = map_of (trials_by_image fobj) a)
         \<and> ''all'' \<notin> set (keys (trials_by_image fobj'))
         \<and> (\<exists>tb. fake_trials_json v1 = Some tb
               \<and> map_of tb ''all'' = Some (all_trials fobj))"
    by (rule trials_reload[OF i p])
qed

theorem persist_reload_round_trip_witness:
  "(\<exists>obj w1. GeirhosTriplets_init readable_stats (None :: unit option) glob
      ''stimuli-shape/style-transfer'' ex_style_world
        = Inr (obj, w1)
      \<and> (\<exists>obj'. GeirhosTriplets_init readable_stats (None :: unit option) glob
          ''stimuli-shape/style-transfer'' w1 = Inr (obj', w1)
           \<and> shape_classes obj' = shape_classes obj
           \<and> all_triplets obj' = all_triplets obj
           \<and> triplets_by_image obj' = AList.delete ''all'' (triplets_by_image obj)))
   \<and> (\<exists>fobj v1. FakeStimTrials_init readable_stats (None :: unit option) glob
       ''stimuli-shape/fake'' ex_fake_world = Inr (fobj, v1)
      \<and> (\<exists>fobj'. FakeStimTrials_init readable_stats (None :: unit option) glob
          ''stimuli-shape/fake'' v1 = Inr (fobj', v1)
           \<and> all_stims fobj' = all_stims fobj
           \<and> all_trials fobj' = all_trials fobj
           \<and> trials_by_image fobj' = AList.delete ''all'' (trials_by_image fobj)))"
proof -
  have "\<not> isl (GeirhosTriplets_init readable_stats (None :: unit option) glob
      ''stimuli-shape/style-transfer'' ex_style_world)"
    by code_simp
  then obtain obj w1 where
    i1: "GeirhosTriplets_init readable_stats (None :: unit option) glob
        ''stimuli-shape/style-transfer'' ex_style_world = Inr (obj, w1)"
    by (cases "GeirhosTriplets_init readable_stats (None :: unit option) glob
        ''stimuli-shape/style-transfer'' ex_style_world") auto
  have "\<not> isl (FakeStimTrials_init readable_stats (None :: unit option) glob
      ''stimuli-shape/fake'' ex_fake_world)"
    by code_simp
  then obtain fobj v1 where
    i2: "FakeStimTrials_init readable_stats (None :: unit option) glob ''stimuli-shape/fake''
        ex_fake_world = Inr (fobj, v1)"
    by (cases "FakeStimTrials_init readable_stats (None :: unit option) glob
        ''stimuli-shape/fake'' ex_fake_world") auto
  have p: "\<not> isl (image_processing readable_stats (None :: unit option) (files v1)
      ''stimuli-shape/fake'' True)"
    by (simp add: image_processing_def readable_stats_def)
  note c = persist_reload_round_trip[where stats = readable_stats
      and transform = "None :: unit option" and g = glob
      and shape_dir = "''stimuli-shape/style-transfer''" and w = ex_style_world
      and obj = obj and ?w1.0 = w1 and g' = glob
      and shape_dir' = "''stimuli-shape/style-transfer''"
      and fstats = readable_stats and ftransform = "None :: unit option"
      and fake_dir = "''stimuli-shape/fake''" and v = ex_fake_world
      and fobj = fobj and ?v1.0 = v1 and fstats' = readable_stats
      and ftransform' = "None :: unit option" and fake_dir' = "''stimuli-shape/fake''"]
  from c i1 obtain obj' where
    "GeirhosTriplets_init readable_stats (None :: unit option) glob
        ''stimuli-shape/style-transfer'' w1 = Inr (obj', w1)"
    "shape_classes obj' = shape_classes obj" "all_triplets obj' = all_triplets obj"
    "triplets_by_image obj' = AList.delete ''all'' (triplets_by_image obj)"
    by blast
  with i1 have e1: "\<exists>obj w1. GeirhosTriplets_init readable_stats (None :: unit option)
      glob ''stimuli-shape/style-transfer''
        ex_style_world = Inr (obj, w1)
      \<and> (\<exists>obj'. GeirhosTriplets_init readable_stats (None :: unit option) glob
          ''stimuli-shape/style-transfer'' w1 = Inr (obj', w1)
           \<and> shape_classes obj' = shape_classes obj
           \<and> all_triplets obj' = all_triplets obj
           \<and> triplets_by_image obj' = AList.delete ''all'' (triplets_by_image obj))"
    by (intro exI[of _ obj] exI[of _ w1] exI[of _ obj'] conjI)
  from c i2 p obtain fobj' where
    "FakeStimTrials_init readable_stats (None :: unit option) glob ''stimuli-shape/fake'' v1 =
        Inr (fobj', v1)"
    "all_stims fobj' = all_stims fobj" "all_trials fobj' = all_trials fobj"
    "trials_by_image fobj' = AList.delete ''all'' (trials_by_image fobj)"
    by blast
  with i2 have e2: "\<exists>fobj v1. FakeStimTrials_init readable_stats (None :: unit option)
      glob ''stimuli-shape/fake'' ex_fake_world
        = Inr (fobj, v1)
      \<and> (\<exists>fobj'. FakeStimTrials_init readable_stats (None :: unit option) glob
          ''stimuli-shape/fake'' v1 = Inr (fobj', v1)
           \<and> all_stims fobj' = all_stims fobj
           \<and> all_trials fobj' = all_trials fobj
           \<and> trials_by_image fobj' = AList.delete ''all'' (trials_by_image fobj))"
    by (intro exI[of _ fobj] exI[of _ v1] exI[of _ fobj'] conjI)
  from e1 e2 show ?thesis by (rule conjI)
qed

end
